theory Spec2Isabelle
  imports Complex_Main "HOL-Library.AList"
begin

section \<open>Python strings\<close>

text \<open>
  A Python string is a sequence of Unicode code points, modelled as a list of natural
  numbers; \<open>length\<close> counts code points, as \<^verbatim>\<open>len\<close> does. The literals of the source are
  ASCII and are written with \<open>lit\<close>. Python floats are modelled as \<^typ>\<open>real\<close>.
\<close>

type_synonym pystr = "nat list"

definition lit :: "string \<Rightarrow> pystr" where
  "lit s = map of_char s"

text \<open>
  What Python takes from the Unicode character database for the code points beyond ASCII
  is a parameter: whether the code point matches \<^verbatim>\<open>\w\<close>, whether it matches \<^verbatim>\<open>\d\<close>, the
  results of \<^verbatim>\<open>str.isalpha\<close> and \<^verbatim>\<open>str.isdigit\<close>, whether it is cased, and the characters
  that \<^verbatim>\<open>str.lower\<close> and \<^verbatim>\<open>str.title\<close> put in the place of the character at a position of
  a string (they may depend on the characters around it). The tables are consulted for
  code points from 128 on only; on ASCII the classes are written out.
\<close>

record unicode =
  uni_word :: "nat \<Rightarrow> bool"
  uni_decimal :: "nat \<Rightarrow> bool"
  uni_alpha :: "nat \<Rightarrow> bool"
  uni_digit :: "nat \<Rightarrow> bool"
  uni_cased :: "nat \<Rightarrow> bool"
  uni_lower_at :: "pystr \<Rightarrow> nat \<Rightarrow> pystr"
  uni_title_at :: "pystr \<Rightarrow> nat \<Rightarrow> pystr"

text \<open>The classes \<^verbatim>\<open>[A-Z]\<close>, \<^verbatim>\<open>[a-z]\<close> and \<^verbatim>\<open>[0-9]\<close>.\<close>

definition is_upper :: "nat \<Rightarrow> bool" where
  "is_upper c = (65 \<le> c \<and> c \<le> 90)"

definition is_lower :: "nat \<Rightarrow> bool" where
  "is_lower c = (97 \<le> c \<and> c \<le> 122)"

definition ascii_digit :: "nat \<Rightarrow> bool" where
  "ascii_digit c = (48 \<le> c \<and> c \<le> 57)"

text \<open>\<^verbatim>\<open>c.isalpha()\<close>, \<^verbatim>\<open>c.isdigit()\<close> and whether \<open>c\<close> is cased.\<close>

definition is_alpha :: "unicode \<Rightarrow> nat \<Rightarrow> bool" where
  "is_alpha U c = (if c < 128 then is_upper c \<or> is_lower c else uni_alpha U c)"

definition is_digit :: "unicode \<Rightarrow> nat \<Rightarrow> bool" where
  "is_digit U c = (if c < 128 then ascii_digit c else uni_digit U c)"

definition is_cased :: "unicode \<Rightarrow> nat \<Rightarrow> bool" where
  "is_cased U c = (if c < 128 then is_upper c \<or> is_lower c else uni_cased U c)"

text \<open>The classes \<^verbatim>\<open>\w\<close> (on ASCII: letters, digits and the underscore) and \<^verbatim>\<open>\d\<close>.\<close>

definition is_word :: "unicode \<Rightarrow> nat \<Rightarrow> bool" where
  "is_word U c =
     (if c < 128 then is_upper c \<or> is_lower c \<or> ascii_digit c \<or> c = 95 else uni_word U c)"

definition is_decimal :: "unicode \<Rightarrow> nat \<Rightarrow> bool" where
  "is_decimal U c = (if c < 128 then ascii_digit c else uni_decimal U c)"

definition lower_cp :: "nat \<Rightarrow> nat" where
  "lower_cp c = (if is_upper c then c + 32 else c)"

definition upper_cp :: "nat \<Rightarrow> nat" where
  "upper_cp c = (if is_lower c then c - 32 else c)"

text \<open>
  \<^verbatim>\<open>s.lower()\<close>: every character is replaced by its lowercase form, an ASCII character by
  its ASCII lowercase form.
\<close>

definition str_lower :: "unicode \<Rightarrow> pystr \<Rightarrow> pystr" where
  "str_lower U s =
     concat (map (\<lambda>i. if s ! i < 128 then [lower_cp (s ! i)] else uni_lower_at U s i)
               [0..<length s])"

text \<open>
  \<^verbatim>\<open>s.title()\<close>: a character that follows a cased character is lowercased, any other
  character is put in title case.
\<close>

definition str_title :: "unicode \<Rightarrow> pystr \<Rightarrow> pystr" where
  "str_title U s =
     concat (map (\<lambda>i. if s ! i < 128
                       then [if 0 < i \<and> is_cased U (s ! (i - 1)) then lower_cp (s ! i)
                             else upper_cp (s ! i)]
                       else uni_title_at U s i)
               [0..<length s])"

text \<open>\<^verbatim>\<open>s.startswith(p)\<close> and the substring test \<^verbatim>\<open>needle in haystack\<close>.\<close>

fun starts_with :: "'a list \<Rightarrow> 'a list \<Rightarrow> bool" where
  "starts_with [] s = True"
| "starts_with (p # ps) [] = False"
| "starts_with (p # ps) (c # cs) = (p = c \<and> starts_with ps cs)"

fun py_in :: "'a list \<Rightarrow> 'a list \<Rightarrow> bool" where
  "py_in needle [] = (needle = [])"
| "py_in needle (c # cs) = (starts_with needle (c # cs) \<or> py_in needle cs)"

text \<open>\<^verbatim>\<open>any(k in text for k in keywords)\<close>\<close>

definition any_in :: "pystr list \<Rightarrow> pystr \<Rightarrow> bool" where
  "any_in keywords text = list_ex (\<lambda>k. py_in k text) keywords"

text \<open>\<^verbatim>\<open>sep.join(parts)\<close>\<close>

fun join :: "'a list \<Rightarrow> 'a list list \<Rightarrow> 'a list" where
  "join sep [] = []"
| "join sep [p] = p"
| "join sep (p # q # ps) = p @ sep @ join sep (q # ps)"

text \<open>Decimal rendering of an integer, as \<^verbatim>\<open>str(n)\<close> and an f-string do it.\<close>

fun str_of_nat :: "nat \<Rightarrow> pystr" where
  "str_of_nat n = (if n < 10 then [48 + n] else str_of_nat (n div 10) @ [48 + n mod 10])"

declare str_of_nat.simps [simp del]

definition str_of_int :: "int \<Rightarrow> pystr" where
  "str_of_int i = (if i < 0 then 45 # str_of_nat (nat (- i)) else str_of_nat (nat i))"

subsection \<open>The regular expressions of the source\<close>

text \<open>
  \<^verbatim>\<open>[A-Z][a-z]{n,}\<close> at the head of a string, greedy: the number of characters matched.
\<close>

definition match_cap_word :: "nat \<Rightarrow> pystr \<Rightarrow> nat option" where
  "match_cap_word n s =
     (case s of
        [] \<Rightarrow> None
      | c # cs \<Rightarrow>
          if is_upper c
          then (let k = length (takeWhile is_lower cs)
                in if n \<le> k then Some (Suc k) else None)
          else None)"

text \<open>The \<^verbatim>\<open>\b\<close> that closes a pattern ending in a letter: end of text or a non-word character.\<close>

definition at_word_end :: "unicode \<Rightarrow> pystr \<Rightarrow> bool" where
  "at_word_end U s = (case s of [] \<Rightarrow> True | c # _ \<Rightarrow> \<not> is_word U c)"

text \<open>
  \<^verbatim>\<open>[A-Z][a-z]+ [A-Z][a-z]+\b\<close> at the head of a string. Taking fewer lowercase letters
  than the greedy run never helps: the next character would be a lowercase letter, which
  is neither the space nor a word boundary, so the greedy choice is the only candidate.
\<close>

definition match_full_name :: "unicode \<Rightarrow> pystr \<Rightarrow> nat option" where
  "match_full_name U s =
     (case match_cap_word 1 s of
        None \<Rightarrow> None
      | Some k1 \<Rightarrow>
          (case drop k1 s of
             [] \<Rightarrow> None
           | c # rest \<Rightarrow>
               if c = 32
               then (case match_cap_word 1 rest of
                       None \<Rightarrow> None
                     | Some k2 \<Rightarrow>
                         if at_word_end U (drop k2 rest) then Some (k1 + 1 + k2) else None)
               else None))"

text \<open>\<^verbatim>\<open>[A-Z][a-z]{2,}\b\<close> at the head of a string.\<close>

definition match_single_name :: "unicode \<Rightarrow> pystr \<Rightarrow> nat option" where
  "match_single_name U s =
     (case match_cap_word 2 s of
        None \<Rightarrow> None
      | Some k \<Rightarrow> if at_word_end U (drop k s) then Some k else None)"

text \<open>
  \<^verbatim>\<open>re.findall(r'\b' + pattern, text)\<close> for a pattern that starts with a letter: the
  scan goes left to right, a match may start only where the previous character is not a word
  character, and the scan resumes after the end of a match. \<open>prev_word\<close> says whether the
  previous character is a word character, \<open>skip\<close> counts the characters of the last
  match still to pass.
\<close>

fun findall_from ::
  "unicode \<Rightarrow> (pystr \<Rightarrow> nat option) \<Rightarrow> bool \<Rightarrow> nat \<Rightarrow> pystr \<Rightarrow> pystr list" where
  "findall_from U m prev_word skip [] = []"
| "findall_from U m prev_word skip (c # cs) =
     (if 0 < skip then findall_from U m (is_word U c) (skip - 1) cs
      else if prev_word then findall_from U m (is_word U c) 0 cs
      else (case m (c # cs) of
              None \<Rightarrow> findall_from U m (is_word U c) 0 cs
            | Some n \<Rightarrow> take n (c # cs) # findall_from U m (is_word U c) (n - 1) cs))"

text \<open>\<^verbatim>\<open>re.findall(r'\b[A-Z][a-z]+ [A-Z][a-z]+\b', text)\<close>\<close>

definition findall_full_names :: "unicode \<Rightarrow> pystr \<Rightarrow> pystr list" where
  "findall_full_names U text = findall_from U (match_full_name U) False 0 text"

text \<open>\<^verbatim>\<open>re.findall(r'\b[A-Z][a-z]{2,}\b', text)\<close>\<close>

definition findall_single_names :: "unicode \<Rightarrow> pystr \<Rightarrow> pystr list" where
  "findall_single_names U text = findall_from U (match_single_name U) False 0 text"

text \<open>\<^verbatim>\<open>re.findall(r'\w+', text)\<close>: the maximal runs of word characters.\<close>

fun findall_words :: "unicode \<Rightarrow> pystr \<Rightarrow> pystr \<Rightarrow> pystr list" where
  "findall_words U cur [] = (if cur = [] then [] else [cur])"
| "findall_words U cur (c # cs) =
     (if is_word U c then findall_words U (cur @ [c]) cs
      else (if cur = [] then [] else [cur]) @ findall_words U [] cs)"

text \<open>\<^verbatim>\<open>re.search(r'\d{4}', text)\<close>: four digits in a row; \<open>run\<close> counts the digits just passed.\<close>

fun search_four_digits :: "unicode \<Rightarrow> nat \<Rightarrow> pystr \<Rightarrow> bool" where
  "search_four_digits U run [] = False"
| "search_four_digits U run (c # cs) =
     (if is_decimal U c then (3 \<le> run \<or> search_four_digits U (Suc run) cs)
      else search_four_digits U 0 cs)"

section \<open>Data model\<close>

text \<open>
  A metadata value is a scalar; the ingestion code stores strings, integers and booleans.
  A metadata dictionary is an association list in insertion order.
\<close>

datatype meta_value = MStr pystr | MInt int | MBool bool

type_synonym metadata = "(pystr \<times> meta_value) list"

text \<open>\<^verbatim>\<open>str(v)\<close>, as an f-string renders a metadata value.\<close>

fun py_str :: "meta_value \<Rightarrow> pystr" where
  "py_str (MStr s) = s"
| "py_str (MInt i) = str_of_int i"
| "py_str (MBool b) = (if b then lit ''True'' else lit ''False'')"

text \<open>The result dictionaries \<^verbatim>\<open>{"content", "metadata", "score"}\<close> of both searches.\<close>

record doc_result =
  content :: pystr
  metadata :: metadata
  score :: real

text \<open>\<^verbatim>\<open>ChatMessage\<close> of \<^verbatim>\<open>backend/models.py\<close>; the timestamp is a number.\<close>

record chat_message =
  role :: pystr
  msg_content :: pystr
  timestamp :: nat
  msg_sources :: "meta_value list"

text \<open>
  \<^verbatim>\<open>ChatResponse\<close> of \<^verbatim>\<open>backend/models.py\<close>. The sources are the \<^verbatim>\<open>source\<close> values of
  the metadata as they are stored; the ingestion code always stores the file name, a string.
\<close>

record chat_response =
  response :: pystr
  sources :: "meta_value list"
  confidence :: real
  has_context :: bool

text \<open>\<^verbatim>\<open>ChatService.chat_sessions\<close>: session id to message list.\<close>

type_synonym chat_sessions = "pystr \<rightharpoonup> chat_message list"

datatype py_error = ZeroDivisionError

section \<open>Query classification (\<^verbatim>\<open>chat_service.py\<close>)\<close>

definition name_indicators :: "pystr list" where
  "name_indicators = map lit
     [''who is'', ''who are'', ''what is'', ''role of'', ''position of'',
      ''lead'', ''manager'', ''developer'', ''cto'', ''qa'', ''tester'',
      ''head of'', ''responsible for'', ''in charge of'']"

definition known_names :: "pystr list" where
  "known_names = map lit
     [''ramesh'', ''iyer'', ''meera'', ''nair'', ''priya'', ''deshmukh'',
      ''anjali'', ''mukherjee'', ''vishal'', ''menon'', ''devika'', ''sharma'',
      ''arjun'', ''mehta'', ''kavya'', ''rathi'', ''neeraj'', ''kapoor'',
      ''ayesha'', ''khan'']"

definition is_name_query :: "unicode \<Rightarrow> pystr \<Rightarrow> bool" where
  "is_name_query U query =
     (let query_lower = str_lower U query;
          has_proper_names = (findall_full_names U query \<noteq> []);
          has_name_indicators = any_in name_indicators query_lower;
          has_known_names = any_in known_names query_lower
      in has_proper_names \<or> has_name_indicators \<or> has_known_names)"

definition reference_indicators :: "pystr list" where
  "reference_indicators = map lit
     [''who did you mention'', ''what did you say'', ''tell me more'', ''more about'',
      ''what about'', ''how about'', ''and what'', ''also'', ''additionally'',
      ''that person'', ''they'', ''them'', ''he'', ''she'', ''it'', ''this'',
      ''previous'', ''before'', ''earlier'', ''above'', ''that'', ''those'']"

definition query_references_previous_context :: "unicode \<Rightarrow> pystr \<Rightarrow> bool" where
  "query_references_previous_context U query =
     any_in reference_indicators (str_lower U query)"

definition visual_indicators :: "pystr list" where
  "visual_indicators = map lit
     [''figure'', ''diagram'', ''image'', ''picture'', ''chart'', ''graph'',
      ''illustration'', ''visual'', ''show'', ''display'', ''screenshot'',
      ''drawing'', ''sketch'', ''flowchart'', ''architecture'', ''design'',
      ''what does'', ''how does'', ''show me'', ''visualize'', ''layout'']"

definition is_visual_query :: "unicode \<Rightarrow> pystr \<Rightarrow> bool" where
  "is_visual_query U query = any_in visual_indicators (str_lower U query)"

definition summary_keywords :: "pystr list" where
  "summary_keywords = map lit
     [''summarize'', ''summary'', ''overview'', ''brief'', ''outline'', ''synopsis'',
      ''main points'', ''key points'', ''highlights'', ''quick overview'',
      ''give me a summary'', ''what are the main'', ''overall picture'']"

definition detail_keywords :: "pystr list" where
  "detail_keywords = map lit
     [''details'', ''detailed'', ''full info'', ''complete section'', ''comprehensive'',
      ''in depth'', ''thorough'', ''complete details'', ''full description'',
      ''tell me everything'', ''all information'', ''complete picture'']"

definition determine_query_type :: "unicode \<Rightarrow> pystr \<Rightarrow> pystr" where
  "determine_query_type U query =
     (let query_lower = str_lower U query
      in if any_in summary_keywords query_lower then lit ''summary''
         else if any_in detail_keywords query_lower then lit ''detail''
         else lit ''default'')"

section \<open>Chat history (\<^verbatim>\<open>chat_service.py\<close>)\<close>

text \<open>The loop of \<^verbatim>\<open>_get_conversation_context\<close> that fills \<^verbatim>\<open>context_parts\<close>.\<close>

fun context_parts_loop :: "unicode \<Rightarrow> pystr list \<Rightarrow> chat_message list \<Rightarrow> pystr list" where
  "context_parts_loop U context_parts [] = context_parts"
| "context_parts_loop U context_parts (msg # msgs) =
     context_parts_loop U
       (context_parts @ [str_title U (role msg) @ lit '': '' @ take 200 (msg_content msg)]) msgs"

definition get_conversation_context ::
  "unicode \<Rightarrow> chat_sessions \<Rightarrow> pystr \<Rightarrow> pystr \<Rightarrow> pystr" where
  "get_conversation_context U sessions session_id current_query =
     (case sessions session_id of
        None \<Rightarrow> []
      | Some history \<Rightarrow>
          if history = [] then []
          else (let recent_messages = drop (length history - 6) history
                in if \<not> query_references_previous_context U current_query then []
                   else (let context_parts = context_parts_loop U [] recent_messages
                         in if context_parts \<noteq> [] then join (lit ''\<newline>'') context_parts
                            else [])))"

text \<open>
  \<^verbatim>\<open>_update_chat_history\<close>; \<open>now\<close> stands for the two readings of the clock.
\<close>

definition update_chat_history ::
  "chat_sessions \<Rightarrow> pystr \<Rightarrow> pystr \<Rightarrow> pystr \<Rightarrow> meta_value list \<Rightarrow> nat \<Rightarrow> chat_sessions" where
  "update_chat_history sessions session_id query response_text srcs now =
     (let history = (case sessions session_id of None \<Rightarrow> [] | Some h \<Rightarrow> h);
          user_message =
            \<lparr>role = lit ''user'', msg_content = query, timestamp = now, msg_sources = []\<rparr>;
          assistant_message =
            \<lparr>role = lit ''assistant'', msg_content = response_text, timestamp = now,
             msg_sources = srcs\<rparr>;
          extended = history @ [user_message, assistant_message]
      in sessions(session_id \<mapsto>
           (if 20 < length extended then drop (length extended - 20) extended else extended)))"

definition get_chat_history :: "chat_sessions \<Rightarrow> pystr \<Rightarrow> chat_message list" where
  "get_chat_history sessions session_id =
     (case sessions session_id of None \<Rightarrow> [] | Some h \<Rightarrow> h)"

definition clear_chat_history :: "chat_sessions \<Rightarrow> pystr \<Rightarrow> chat_sessions" where
  "clear_chat_history sessions session_id =
     (if session_id \<in> dom sessions then sessions(session_id := None) else sessions)"

definition clear_all_sessions :: "chat_sessions \<Rightarrow> chat_sessions" where
  "clear_all_sessions sessions = Map.empty"

section \<open>The vector store (\<^verbatim>\<open>vector_service.py\<close>)\<close>

subsection \<open>Feature vectors\<close>

text \<open>Python's true division: a zero divisor raises.\<close>

definition py_truediv :: "real \<Rightarrow> real \<Rightarrow> py_error + real" where
  "py_truediv a b = (if b = 0 then Inl ZeroDivisionError else Inr (a / b))"

text \<open>A list comprehension whose element expression may raise.\<close>

fun map_result :: "('a \<Rightarrow> 'e + 'b) \<Rightarrow> 'a list \<Rightarrow> 'e + 'b list" where
  "map_result f [] = Inr []"
| "map_result f (x # xs) =
     (case f x of
        Inl e \<Rightarrow> Inl e
      | Inr y \<Rightarrow> (case map_result f xs of Inl e \<Rightarrow> Inl e | Inr ys \<Rightarrow> Inr (y # ys)))"

definition visual_words :: "pystr list" where
  "visual_words = map lit
     [''figure'', ''diagram'', ''image'', ''chart'', ''graph'', ''illustration'']"

text \<open>The keys of \<^verbatim>\<open>crm_keywords\<close> and of \<^verbatim>\<open>important_bigrams\<close>, in the order of the literals.\<close>

definition crm_keywords :: "pystr list" where
  "crm_keywords = map lit
     [''react'', ''node'', ''mongodb'', ''aws'', ''oauth'', ''backend'', ''frontend'',
      ''api'', ''database'', ''developer'', ''delay'', ''vendor'', ''approval'',
      ''approved'', ''ramesh'', ''iyer'', ''meera'', ''nair'', ''cto'', ''adoption'',
      ''metrics'', ''pipeline'', ''mobile'', ''support'', ''tickets'', ''testing'',
      ''jest'', ''security'', ''rbac'', ''encryption'', ''module'', ''lead'',
      ''contact'', ''opportunity'', ''email'', ''campaign'', ''analytics'',
      ''dashboard'', ''functional'', ''april'', ''started'', ''final'', ''release'',
      ''uat'', ''anjali'', ''mukherjee'', ''qa'', ''quality'', ''assurance'',
      ''vishal'', ''menon'', ''devika'', ''sharma'', ''arjun'', ''mehta'', ''kavya'',
      ''rathi'', ''neeraj'', ''kapoor'', ''ayesha'', ''khan'', ''priya'', ''deshmukh'',
      ''role'']"

definition important_bigrams :: "pystr list" where
  "important_bigrams = map lit
     [''backend_developer'', ''email_campaign'', ''final_approval'', ''post_release'',
      ''user_adoption'', ''support_tickets'', ''pipeline_visibility'',
      ''mobile_usage'', ''tech_stack'', ''project_delayed'', ''technology_stack'']"

text \<open>
  The counting loops \<^verbatim>\<open>for w in ws: if w in d: d[w] += 1\<close> over a dictionary that starts
  with every key at 0.
\<close>

fun count_known :: "(pystr \<times> nat) list \<Rightarrow> pystr list \<Rightarrow> (pystr \<times> nat) list" where
  "count_known d [] = d"
| "count_known d (w # ws) =
     count_known (case map_of d w of None \<Rightarrow> d | Some n \<Rightarrow> AList.update w (n + 1) d) ws"

text \<open>\<^verbatim>\<open>[f"{words[i]}_{words[i+1]}" for i in range(len(words)-1)]\<close>\<close>

fun bigrams_of :: "pystr list \<Rightarrow> pystr list" where
  "bigrams_of (a # b # ws) = (a @ lit ''_'' @ b) # bigrams_of (b # ws)"
| "bigrams_of ws = []"

text \<open>
  The loop \<^verbatim>\<open>for char in text_lower: if char.isalpha(): char_counts[char] = char_counts.get(char, 0) + 1\<close>.
\<close>

fun count_chars :: "unicode \<Rightarrow> (nat \<times> nat) list \<Rightarrow> pystr \<Rightarrow> (nat \<times> nat) list" where
  "count_chars U d [] = d"
| "count_chars U d (c # cs) =
     count_chars U
       (if is_alpha U c
        then AList.update c ((case map_of d c of None \<Rightarrow> 0 | Some n \<Rightarrow> n) + 1) d
        else d) cs"

text \<open>The body of the loop of \<^verbatim>\<open>_generate_improved_embeddings\<close>, for one text.\<close>

definition generate_improved_embedding :: "unicode \<Rightarrow> pystr \<Rightarrow> py_error + real list" where
  "generate_improved_embedding U text =
     (let text_lower = str_lower U text;
          words = findall_words U [] text_lower
      in case py_truediv (real (length text)) 2000 of
           Inl e \<Rightarrow> Inl e
         | Inr length_ratio \<Rightarrow>
      (case py_truediv (real (length words)) 200 of
           Inl e \<Rightarrow> Inl e
         | Inr word_ratio \<Rightarrow>
      (let length_feature = min length_ratio 1;
           word_count_feature = min word_ratio 1;
           has_visual_content = (if any_in visual_words text_lower then 1 else 0);
           is_visual_chunk =
             (if py_in (lit ''visual'') text_lower \<and>
                 (py_in (lit ''description:'') text_lower \<or> py_in (lit ''caption:'') text_lower)
              then 1 else 0);
           keyword_counts = count_known (map (\<lambda>k. (k, 0)) crm_keywords) words;
           total_words = (if length words = 0 then 1 else length words)
       in case map_result (\<lambda>count. py_truediv (real count) (real total_words))
                 (map snd keyword_counts) of
            Inl e \<Rightarrow> Inl e
          | Inr keyword_features \<Rightarrow>
      (let bigrams = bigrams_of words;
           bigram_counts = count_known (map (\<lambda>k. (k, 0)) important_bigrams) bigrams
       in case map_result (\<lambda>count. py_truediv (real count) (real (max (length bigrams) 1)))
                 (map snd bigram_counts) of
            Inl e \<Rightarrow> Inl e
          | Inr bigram_features \<Rightarrow>
      (let char_counts = count_chars U [] text_lower;
           char_sum = sum_list (map snd char_counts);
           total_chars = (if char_sum = 0 then 1 else char_sum)
       in case map_result
                 (\<lambda>ch. py_truediv (real (case map_of char_counts ch of None \<Rightarrow> 0 | Some n \<Rightarrow> n))
                         (real total_chars))
                 (lit ''aeioutrnslc'') of
            Inl e \<Rightarrow> Inl e
          | Inr char_features \<Rightarrow>
      (let has_numbers = (if list_ex (is_digit U) text then 1 else 0);
           has_dates = (if search_four_digits U 0 text then 1 else 0);
           has_percentages = (if py_in (lit ''%'') text then 1 else 0);
           embedding =
             [length_feature, word_count_feature, has_numbers, has_dates, has_percentages,
              has_visual_content, is_visual_chunk]
             @ keyword_features @ bigram_features @ char_features;
           target_size = 384
       in Inr (if length embedding < target_size
               then embedding @ replicate (target_size - length embedding) 0
               else take target_size embedding)))))))"

definition generate_improved_embeddings ::
  "unicode \<Rightarrow> pystr list \<Rightarrow> py_error + real list list" where
  "generate_improved_embeddings U texts = map_result (generate_improved_embedding U) texts"

subsection \<open>The collection\<close>

text \<open>
  One stored chunk: id, text, metadata and feature vector. The collection is the list of
  stored chunks in insertion order; \<open>None\<close> is a service whose collection is not set.
\<close>

record chunk =
  chunk_id :: pystr
  document :: pystr
  chunk_metadata :: metadata
  embedding :: "real list"

type_synonym collection = "chunk list"

text \<open>
  Modelled from the spec: the methods of the chromadb collection object (\<^verbatim>\<open>get\<close>,
  \<^verbatim>\<open>delete\<close>, \<^verbatim>\<open>count\<close>, \<^verbatim>\<open>query\<close>), a library outside the repository. As the spec has
  it, the store holds (id, vector, text, metadata) tuples, \<^verbatim>\<open>get\<close> lists them (all, or
  those whose metadata \<^verbatim>\<open>doc_id\<close> matches), \<^verbatim>\<open>delete\<close> removes the chunks with the given
  ids, \<^verbatim>\<open>count\<close> is the number of stored chunks, and \<^verbatim>\<open>query\<close> computes the distance from
  the query vector to every stored vector and returns the \<^verbatim>\<open>n_results\<close> nearest, the
  earlier chunk first among equals. The distance function \<open>dfn\<close> is a parameter.
\<close>

definition coll_get_where_doc_id :: "collection \<Rightarrow> pystr \<Rightarrow> chunk list" where
  "coll_get_where_doc_id c doc_id =
     filter (\<lambda>ch. map_of (chunk_metadata ch) (lit ''doc_id'') = Some (MStr doc_id)) c"

definition coll_delete :: "collection \<Rightarrow> pystr list \<Rightarrow> collection" where
  "coll_delete c ids = filter (\<lambda>ch. chunk_id ch \<notin> set ids) c"

definition coll_count :: "collection \<Rightarrow> nat" where
  "coll_count c = length c"

definition coll_query ::
  "(real list \<Rightarrow> real list \<Rightarrow> real) \<Rightarrow> collection \<Rightarrow> real list \<Rightarrow> nat
     \<Rightarrow> (pystr \<times> metadata \<times> real) list" where
  "coll_query dfn c query_embedding n_results =
     take n_results
       (sort_key (\<lambda>(doc, md, distance). distance)
          (map (\<lambda>ch. (document ch, chunk_metadata ch, dfn query_embedding (embedding ch))) c))"

subsection \<open>Similarity search\<close>

text \<open>The loop of \<^verbatim>\<open>similarity_search\<close> over the zipped query results.\<close>

fun process_results ::
  "(pystr \<times> metadata \<times> real) list \<Rightarrow> real \<Rightarrow> doc_result list \<Rightarrow> real list
     \<Rightarrow> py_error + (doc_result list \<times> real list)" where
  "process_results [] score_threshold documents scores = Inr (documents, scores)"
| "process_results ((doc, md, distance) # rest) score_threshold documents scores =
     (case py_truediv 1 (1 + distance) of
        Inl e \<Rightarrow> Inl e
      | Inr similarity_score \<Rightarrow>
          if score_threshold \<le> similarity_score
          then process_results rest score_threshold
                 (documents @ [\<lparr>content = doc, metadata = md, score = similarity_score\<rparr>])
                 (scores @ [similarity_score])
          else process_results rest score_threshold documents scores)"

text \<open>
  \<^verbatim>\<open>similarity_search\<close>: every exception raised inside is caught and turned into the pair
  of empty lists.
\<close>

definition similarity_search ::
  "unicode \<Rightarrow> (real list \<Rightarrow> real list \<Rightarrow> real) \<Rightarrow> collection option \<Rightarrow> pystr \<Rightarrow> nat \<Rightarrow> real
     \<Rightarrow> doc_result list \<times> real list" where
  "similarity_search U dfn coll query top_k score_threshold =
     (case coll of
        None \<Rightarrow> ([], [])
      | Some c \<Rightarrow>
          (case generate_improved_embeddings U [query] of
             Inl e \<Rightarrow> ([], [])
           | Inr [] \<Rightarrow> ([], [])
           | Inr (query_embedding # _) \<Rightarrow>
               (case process_results (coll_query dfn c query_embedding top_k)
                       score_threshold [] [] of
                  Inl e \<Rightarrow> ([], [])
                | Inr found \<Rightarrow> found)))"

subsection \<open>Collection maintenance\<close>

datatype collection_info = NotInitialized | Active nat pystr

definition COLLECTION_NAME :: pystr where
  "COLLECTION_NAME = lit ''project_documents''"

definition get_collection_info :: "collection option \<Rightarrow> collection_info" where
  "get_collection_info coll =
     (case coll of
        None \<Rightarrow> NotInitialized
      | Some c \<Rightarrow> Active (coll_count c) COLLECTION_NAME)"

text \<open>Both return the \<^verbatim>\<open>(success, message)\<close> pair and the collection afterwards.\<close>

definition clear_collection :: "collection option \<Rightarrow> (bool \<times> pystr) \<times> collection option" where
  "clear_collection coll =
     (case coll of
        Some c \<Rightarrow>
          (let ids = map chunk_id c
           in if ids \<noteq> []
              then ((True, lit ''Collection cleared successfully''), Some (coll_delete c ids))
              else ((True, lit ''Collection was already empty''), Some c))
      | None \<Rightarrow> ((False, lit ''Collection not initialized''), None))"

definition delete_document ::
  "collection option \<Rightarrow> pystr \<Rightarrow> (bool \<times> pystr) \<times> collection option" where
  "delete_document coll doc_id =
     (case coll of
        None \<Rightarrow> ((False, lit ''Collection not initialized''), None)
      | Some c \<Rightarrow>
          (let ids = map chunk_id (coll_get_where_doc_id c doc_id)
           in if ids \<noteq> []
              then ((True, lit ''Deleted '' @ str_of_nat (length ids) @ lit '' document chunks''),
                    Some (coll_delete c ids))
              else ((True, lit ''No chunks found for this document''), Some c)))"

subsection \<open>Keyword fallback search\<close>

definition name_keywords :: "pystr list" where
  "name_keywords = map lit
     [''ramesh'', ''iyer'', ''meera'', ''nair'', ''priya'', ''deshmukh'',
      ''anjali'', ''mukherjee'', ''vishal'', ''menon'', ''devika'', ''sharma'',
      ''arjun'', ''mehta'', ''kavya'', ''rathi'', ''neeraj'', ''kapoor'',
      ''ayesha'', ''khan'', ''cto'', ''qa lead'', ''project manager'',
      ''head of operations'', ''developer'', ''tester'']"

text \<open>The first part of \<^verbatim>\<open>text_search_fallback\<close>: the search terms of a query.\<close>

definition search_terms_of :: "unicode \<Rightarrow> pystr \<Rightarrow> pystr list" where
  "search_terms_of U query =
     (let full_names = findall_full_names U query;
          single_names = findall_single_names U query;
          query_lower = str_lower U query;
          search_terms =
            full_names @ single_names @ filter (\<lambda>keyword. py_in keyword query_lower) name_keywords
      in if search_terms = [] then [query_lower] else search_terms)"

text \<open>The inner loop over the search terms, for one chunk.\<close>

fun match_score_loop :: "unicode \<Rightarrow> pystr \<Rightarrow> pystr list \<Rightarrow> real \<Rightarrow> real" where
  "match_score_loop U content_lower [] match_score = match_score"
| "match_score_loop U content_lower (term # terms) match_score =
     match_score_loop U content_lower terms
       (if py_in (str_lower U term) content_lower
        then (if str_lower U term = term then max match_score 0.95 else max match_score 0.9)
        else match_score)"

text \<open>The outer loop over the stored chunks.\<close>

fun scan_chunks :: "unicode \<Rightarrow> pystr list \<Rightarrow> chunk list \<Rightarrow> doc_result list \<Rightarrow> doc_result list" where
  "scan_chunks U search_terms [] matches = matches"
| "scan_chunks U search_terms (ch # chs) matches =
     (let match_score = match_score_loop U (str_lower U (document ch)) search_terms 0
      in scan_chunks U search_terms chs
           (if 0 < match_score
            then matches @ [\<lparr>content = document ch, metadata = chunk_metadata ch,
                              score = match_score\<rparr>]
            else matches))"

definition text_search_fallback :: "unicode \<Rightarrow> collection option \<Rightarrow> pystr \<Rightarrow> doc_result list" where
  "text_search_fallback U coll query =
     (case coll of
        None \<Rightarrow> []
      | Some c \<Rightarrow>
          (let search_terms = search_terms_of U query;
               matches = scan_chunks U search_terms c []
           in take 10 (sort_key (\<lambda>m. - score m) matches)))"

section \<open>Answering a query (\<^verbatim>\<open>chat_service.py\<close>)\<close>

text \<open>\<^verbatim>\<open>doc["metadata"].get("source", "Unknown")\<close>\<close>

definition source_of :: "doc_result \<Rightarrow> meta_value" where
  "source_of doc =
     (case map_of (metadata doc) (lit ''source'') of
        None \<Rightarrow> MStr (lit ''Unknown'')
      | Some v \<Rightarrow> v)"

text \<open>
  The loop of the summary branch of \<^verbatim>\<open>_build_context\<close>; \<open>i\<close> is the counter of
  \<^verbatim>\<open>enumerate\<close>.
\<close>

fun summary_loop :: "nat \<Rightarrow> doc_result list \<Rightarrow> pystr list \<Rightarrow> pystr list" where
  "summary_loop i [] context_parts = context_parts"
| "summary_loop i (doc # docs) context_parts =
     (let source = source_of doc;
          summary_content =
            (if 800 < length (content doc) then take 800 (content doc) @ lit ''...''
             else content doc)
      in summary_loop (i + 1) docs
           (context_parts @
            [lit ''[Source '' @ str_of_nat (i + 1) @ lit '': '' @ py_str source @ lit '']''
             @ lit ''\<newline>'' @ summary_content]))"

text \<open>
  The loop shared by the detail and the default branch. \<open>fmt2\<close> renders a float with two
  decimals (\<^verbatim>\<open>{score:.2f}\<close>) and is a parameter.
\<close>

fun relevance_loop ::
  "(real \<Rightarrow> pystr) \<Rightarrow> nat \<Rightarrow> doc_result list \<Rightarrow> pystr list \<Rightarrow> pystr list" where
  "relevance_loop fmt2 i [] context_parts = context_parts"
| "relevance_loop fmt2 i (doc # docs) context_parts =
     (let source = source_of doc
      in relevance_loop fmt2 (i + 1) docs
           (context_parts @
            [lit ''[Source '' @ str_of_nat (i + 1) @ lit '': '' @ py_str source
             @ lit '' (relevance: '' @ fmt2 (score doc) @ lit '')]'' @ lit ''\<newline>''
             @ content doc]))"

text \<open>The list \<^verbatim>\<open>context_parts\<close> that \<^verbatim>\<open>_build_context\<close> joins.\<close>

definition build_context_parts ::
  "(real \<Rightarrow> pystr) \<Rightarrow> doc_result list \<Rightarrow> pystr \<Rightarrow> pystr list" where
  "build_context_parts fmt2 relevant_docs query_type =
     (if query_type = lit ''summary'' then summary_loop 0 (take 8 relevant_docs) []
      else if query_type = lit ''detail'' then relevance_loop fmt2 0 (take 8 relevant_docs) []
      else relevance_loop fmt2 0 (take 5 relevant_docs) [])"

definition build_context :: "(real \<Rightarrow> pystr) \<Rightarrow> doc_result list \<Rightarrow> pystr \<Rightarrow> pystr" where
  "build_context fmt2 relevant_docs query_type =
     (if relevant_docs = [] then []
      else join (lit ''\<newline>\<newline>'') (build_context_parts fmt2 relevant_docs query_type))"

text \<open>
  \<^verbatim>\<open>_extract_sources\<close>: the distinct sources. Python builds the list from a set, in
  an order it does not fix; the model keeps the order of first appearance.
\<close>

definition extract_sources :: "doc_result list \<Rightarrow> meta_value list" where
  "extract_sources relevant_docs = remdups (map source_of relevant_docs)"

text \<open>
  The loop of \<^verbatim>\<open>_calculate_confidence\<close>: the pair is
  \<^verbatim>\<open>(weighted_score, total_weight)\<close>.
\<close>

fun confidence_loop :: "nat \<Rightarrow> real list \<Rightarrow> real \<times> real \<Rightarrow> real \<times> real" where
  "confidence_loop i [] acc = acc"
| "confidence_loop i (s # ss) (weighted_score, total_weight) =
     (let weight = 1 / real (i + 1)
      in confidence_loop (i + 1) ss (weighted_score + s * weight, total_weight + weight))"

definition calculate_confidence :: "real list \<Rightarrow> bool \<Rightarrow> real" where
  "calculate_confidence scores has_ctx =
     (if \<not> has_ctx \<or> scores = [] then 0
      else (let (weighted_score, total_weight) = confidence_loop 0 (take 3 scores) (0, 0);
                conf = (if 0 < total_weight then weighted_score / total_weight else 0)
            in min conf 1))"

text \<open>
  What \<^verbatim>\<open>process_query\<close> takes from outside the program: the Unicode tables, the distance
  function of the store, the rendering of a float with two decimals, the clock, and
  \<^verbatim>\<open>_generate_response\<close>, which calls the generative model, catches every exception
  and always returns a string; its arguments are the query, the context, \<^verbatim>\<open>has_context\<close>,
  the conversation context, the query type and the visual flag.
\<close>

record externals =
  tables :: unicode
  distance_fn :: "real list \<Rightarrow> real list \<Rightarrow> real"
  format_2f :: "real \<Rightarrow> pystr"
  clock :: nat
  generate_response :: "pystr \<Rightarrow> pystr \<Rightarrow> bool \<Rightarrow> pystr \<Rightarrow> pystr \<Rightarrow> bool \<Rightarrow> pystr"

definition top_k_of :: "pystr \<Rightarrow> nat" where
  "top_k_of query_type =
     (if query_type = lit ''summary'' then 8 else if query_type = lit ''detail'' then 20 else 15)"

text \<open>
  The retrieval of \<^verbatim>\<open>process_query\<close>: the similarity search, then, for a name query,
  the keyword fallback and the merge.
\<close>

definition retrieve ::
  "externals \<Rightarrow> collection option \<Rightarrow> pystr \<Rightarrow> doc_result list \<times> real list" where
  "retrieve ext coll query =
     (let query_type = determine_query_type (tables ext) query;
          top_k = top_k_of query_type;
          (relevant_docs, scores) =
            similarity_search (tables ext) (distance_fn ext) coll query top_k 0.01
      in if is_name_query (tables ext) query
         then (let text_search_docs = text_search_fallback (tables ext) coll query
               in if text_search_docs \<noteq> []
                  then (text_search_docs @ take 10 relevant_docs,
                        replicate (length text_search_docs) 0.9 @ take 10 scores)
                  else (relevant_docs, scores))
         else (relevant_docs, scores))"

text \<open>
  \<^verbatim>\<open>process_query\<close>: the response and the chat sessions afterwards. No statement of the
  body raises in this model (the searches and the generation catch their own
  exceptions), so the handler of \<^verbatim>\<open>process_query\<close> has no branch here.
\<close>

definition process_query ::
  "externals \<Rightarrow> collection option \<Rightarrow> chat_sessions \<Rightarrow> pystr \<Rightarrow> pystr
     \<Rightarrow> chat_response \<times> chat_sessions" where
  "process_query ext coll sessions query session_id =
     (let conversation_context =
            get_conversation_context (tables ext) sessions session_id query;
          query_type = determine_query_type (tables ext) query;
          (relevant_docs, scores) = retrieve ext coll query;
          context = build_context (format_2f ext) relevant_docs query_type;
          has_ctx = (0 < length relevant_docs);
          visual_query = is_visual_query (tables ext) query;
          response_text =
            generate_response ext query context has_ctx conversation_context query_type
              visual_query;
          srcs = extract_sources relevant_docs;
          conf = calculate_confidence scores has_ctx;
          resp = \<lparr>response = response_text, sources = srcs, confidence = conf,
                  has_context = has_ctx\<rparr>
      in (resp, update_chat_history sessions session_id query response_text srcs (clock ext)))"

section \<open>The states of the chat sessions\<close>

text \<open>
  The values \<^verbatim>\<open>chat_sessions\<close> can take: it starts empty, and
  \<^verbatim>\<open>_update_chat_history\<close>, \<^verbatim>\<open>clear_chat_history\<close>, \<^verbatim>\<open>clear_all_sessions\<close> and
  \<^verbatim>\<open>process_query\<close> are the only code that writes it.
\<close>

inductive reachable_sessions :: "chat_sessions \<Rightarrow> bool" where
  init: "reachable_sessions Map.empty"
| update: "reachable_sessions s \<Longrightarrow>
     reachable_sessions (update_chat_history s session_id query response_text srcs now)"
| clear_one: "reachable_sessions s \<Longrightarrow> reachable_sessions (clear_chat_history s session_id)"
| clear_all: "reachable_sessions s \<Longrightarrow> reachable_sessions (clear_all_sessions s)"
| query: "reachable_sessions s \<Longrightarrow>
     reachable_sessions (snd (process_query ext coll s query session_id))"

section \<open>The scoring rule as the specification words it\<close>

text \<open>
  The specification says of the keyword fallback search that the first match found per
  chunk determines the score: 0.95 for a term of the fixed keyword list, 0.9 for a
  proper-name term. This definition follows those words, for comparison with
  \<open>match_score_loop\<close>, which follows the source.
\<close>

definition spec_first_match_score :: "unicode \<Rightarrow> pystr \<Rightarrow> pystr list \<Rightarrow> real" where
  "spec_first_match_score U content_lower search_terms =
     (case find (\<lambda>t. py_in (str_lower U t) content_lower) search_terms of
        None \<Rightarrow> 0
      | Some t \<Rightarrow> if t \<in> set name_keywords then 0.95 else 0.9)"

section \<open>Inputs for the examples\<close>

text \<open>
  Tables that classify no code point beyond ASCII and leave it as it is. The examples are
  ASCII text, for which the tables are never consulted.
\<close>

definition no_tables :: unicode where
  "no_tables =
     \<lparr>uni_word = (\<lambda>c. False), uni_decimal = (\<lambda>c. False), uni_alpha = (\<lambda>c. False),
      uni_digit = (\<lambda>c. False), uni_cased = (\<lambda>c. False),
      uni_lower_at = (\<lambda>s i. [s ! i]), uni_title_at = (\<lambda>s i. [s ! i])\<rparr>"

text \<open>The stored chunk, the squared Euclidean distance and the rest of the environment.\<close>

definition cto_chunk :: chunk where
  "cto_chunk =
     \<lparr>chunk_id = lit ''d1_chunk_0'', document = lit ''Ramesh Iyer is the CTO.'',
      chunk_metadata = [(lit ''source'', MStr (lit ''team.txt'')), (lit ''doc_id'', MStr (lit ''d1''))],
      embedding = []\<rparr>"

definition squared_l2 :: "real list \<Rightarrow> real list \<Rightarrow> real" where
  "squared_l2 u v = sum_list (map2 (\<lambda>a b. (a - b)\<^sup>2) u v)"

definition example_ext :: externals where
  "example_ext =
     \<lparr>tables = no_tables, distance_fn = squared_l2, format_2f = (\<lambda>x. lit ''0.00''), clock = 0,
      generate_response = (\<lambda>q c h cc qt v. lit ''ok'')\<rparr>"

text \<open>
  Two chunks whose texts have no words and no letters, stored with the feature vectors of
  their texts.
\<close>

definition percent_vector :: "real list" where
  "percent_vector = [1 / 2000, 0, 0, 0, 1, 0, 0] @ replicate 377 0"

definition question_vector :: "real list" where
  "question_vector = [1 / 2000, 0, 0, 0, 0, 0, 0] @ replicate 377 0"

definition percent_chunk :: chunk where
  "percent_chunk =
     \<lparr>chunk_id = lit ''d2_chunk_0'', document = lit ''%'',
      chunk_metadata = [(lit ''source'', MStr (lit ''notes.txt'')), (lit ''doc_id'', MStr (lit ''d2''))],
      embedding = percent_vector\<rparr>"

definition question_chunk :: chunk where
  "question_chunk =
     \<lparr>chunk_id = lit ''d2_chunk_1'', document = lit ''?'',
      chunk_metadata = [(lit ''source'', MStr (lit ''notes.txt'')), (lit ''doc_id'', MStr (lit ''d2''))],
      embedding = question_vector\<rparr>"

section \<open>Properties\<close>

subsection \<open>Chat history\<close>

lemma context_parts_loop_map:
  "context_parts_loop U acc msgs =
     acc @ map (\<lambda>m. str_title U (role m) @ lit '': '' @ take 200 (msg_content m)) msgs"
  by (induction msgs arbitrary: acc) simp_all

lemma update_chat_history_eq:
  "update_chat_history s sid q r srcs now =
     s(sid \<mapsto> (let ext = get_chat_history s sid @
                      [\<lparr>role = lit ''user'', msg_content = q, timestamp = now, msg_sources = []\<rparr>,
                       \<lparr>role = lit ''assistant'', msg_content = r, timestamp = now,
                        msg_sources = srcs\<rparr>]
                in drop (length ext - 20) ext))"
  by (simp add: update_chat_history_def get_chat_history_def Let_def)

lemma update_chat_history_bound:
  "update_chat_history s sid q r srcs now x = Some h \<Longrightarrow>
   (\<And>h'. s x = Some h' \<Longrightarrow> length h' \<le> 20) \<Longrightarrow> length h \<le> 20"
  by (auto simp: update_chat_history_def Let_def split: if_splits)

lemma snd_process_query:
  "snd (process_query ext coll s q sid) =
     update_chat_history s sid q (response (fst (process_query ext coll s q sid)))
       (sources (fst (process_query ext coll s q sid))) (clock ext)"
  by (simp add: process_query_def Let_def split: prod.splits)

lemma reachable_sessions_bound:
  "reachable_sessions s \<Longrightarrow> s sid = Some h \<Longrightarrow> length h \<le> 20"
proof (induction arbitrary: sid h rule: reachable_sessions.induct)
  case init
  then show ?case by simp
next
  case (update s session_id query response_text srcs now)
  then show ?case using update_chat_history_bound by blast
next
  case (clear_one s session_id)
  then show ?case by (auto simp: clear_chat_history_def split: if_splits)
next
  case (clear_all s)
  then show ?case by (simp add: clear_all_sessions_def)
next
  case (query s ext coll query session_id)
  then show ?case unfolding snd_process_query using update_chat_history_bound by blast
qed

text \<open>
  C10: after every update of the chat history each session holds at most 20 messages,
  and an update keeps the 20 most recent messages of the extended history. The bound is
  an invariant of \<^verbatim>\<open>chat_sessions\<close>: it holds at the start and every operation that writes
  \<^verbatim>\<open>chat_sessions\<close> preserves it.
\<close>

theorem chat_history_cap:
  assumes "reachable_sessions s" and "s sid = Some h"
  shows "length h \<le> 20 \<and>
         (let extended = get_chat_history s session_id @
                  [\<lparr>role = lit ''user'', msg_content = query, timestamp = now, msg_sources = []\<rparr>,
                   \<lparr>role = lit ''assistant'', msg_content = response_text, timestamp = now,
                    msg_sources = srcs\<rparr>];
              kept = drop (length extended - 20) extended
          in update_chat_history s session_id query response_text srcs now
               = s(session_id \<mapsto> kept) \<and> length kept \<le> 20)"
  using reachable_sessions_bound [OF assms] assms(1)
        reachable_sessions_bound [of s session_id]
  by (auto simp: update_chat_history_eq Let_def get_chat_history_def split: option.splits)

theorem chat_history_cap_witness:
  "reachable_sessions
     (update_chat_history Map.empty (lit ''s1'') (lit ''hi'') (lit ''hello'') [] 0) \<and>
   update_chat_history Map.empty (lit ''s1'') (lit ''hi'') (lit ''hello'') [] 0 (lit ''s1'') =
     Some [\<lparr>role = lit ''user'', msg_content = lit ''hi'', timestamp = 0, msg_sources = []\<rparr>,
           \<lparr>role = lit ''assistant'', msg_content = lit ''hello'', timestamp = 0,
            msg_sources = []\<rparr>] \<and>
   length [\<lparr>role = lit ''user'', msg_content = lit ''hi'', timestamp = 0, msg_sources = []\<rparr>,
           \<lparr>role = lit ''assistant'', msg_content = lit ''hello'', timestamp = 0,
            msg_sources = []\<rparr>] \<le> 20"
proof -
  have r: "reachable_sessions
     (update_chat_history Map.empty (lit ''s1'') (lit ''hi'') (lit ''hello'') [] 0)"
    by (rule reachable_sessions.update [OF reachable_sessions.init])
  have e: "update_chat_history Map.empty (lit ''s1'') (lit ''hi'') (lit ''hello'') [] 0
             (lit ''s1'') =
     Some [\<lparr>role = lit ''user'', msg_content = lit ''hi'', timestamp = 0, msg_sources = []\<rparr>,
           \<lparr>role = lit ''assistant'', msg_content = lit ''hello'', timestamp = 0,
            msg_sources = []\<rparr>]"
    by (simp add: update_chat_history_def)
  from chat_history_cap [OF r e] r e show ?thesis by simp
qed

text \<open>
  C7: the conversation context is non-empty only when the query contains a
  backward-reference indicator and the session has a non-empty history; it is then built
  from at most the last 6 messages, each line holding the role and the first 200
  characters of the message.
\<close>

theorem conversation_context_only_on_reference:
  assumes "get_conversation_context U sessions session_id query \<noteq> []"
  shows "query_references_previous_context U query \<and>
         (\<exists>history. sessions session_id = Some history \<and> history \<noteq> [] \<and>
            (let recent = drop (length history - 6) history
             in length recent \<le> 6 \<and>
                get_conversation_context U sessions session_id query =
                  join (lit ''\<newline>'')
                    (map (\<lambda>m. str_title U (role m) @ lit '': '' @ take 200 (msg_content m))
                       recent)))"
  using assms
  by (auto simp: get_conversation_context_def Let_def context_parts_loop_map
           split: option.splits if_splits)

lemma tell_me_more_refers:
  "query_references_previous_context no_tables (lit ''tell me more'')"
  by code_simp

lemma tell_me_more_context:
  "get_conversation_context no_tables
     [lit ''s1'' \<mapsto> [\<lparr>role = lit ''user'', msg_content = lit ''hi'', timestamp = 0,
                       msg_sources = []\<rparr>]]
     (lit ''s1'') (lit ''tell me more'') = lit ''User: hi''"
proof -
  have t: "str_title no_tables (lit ''user'') @ lit '': '' @ take 200 (lit ''hi'') = lit ''User: hi''"
    by code_simp
  show ?thesis
    by (simp add: get_conversation_context_def tell_me_more_refers t)
qed

theorem conversation_context_only_on_reference_witness:
  "get_conversation_context no_tables
     [lit ''s1'' \<mapsto> [\<lparr>role = lit ''user'', msg_content = lit ''hi'', timestamp = 0,
                       msg_sources = []\<rparr>]]
     (lit ''s1'') (lit ''tell me more'') = lit ''User: hi'' \<and>
   lit ''User: hi'' \<noteq> [] \<and>
   query_references_previous_context no_tables (lit ''tell me more'')"
proof -
  have ne: "get_conversation_context no_tables
     [lit ''s1'' \<mapsto> [\<lparr>role = lit ''user'', msg_content = lit ''hi'', timestamp = 0,
                       msg_sources = []\<rparr>]]
     (lit ''s1'') (lit ''tell me more'') \<noteq> []"
    unfolding tell_me_more_context by (simp add: lit_def)
  from conversation_context_only_on_reference [OF ne] tell_me_more_context ne show ?thesis
    by simp
qed

subsection \<open>Collection maintenance\<close>

lemma coll_delete_all: "coll_delete c (map chunk_id c) = []"
  by (simp add: coll_delete_def)

lemma coll_delete_nothing: "coll_delete c [] = c"
  by (simp add: coll_delete_def)

lemma coll_get_after_delete:
  "coll_get_where_doc_id (coll_delete c (map chunk_id (coll_get_where_doc_id c d))) d = []"
  by (auto simp: coll_get_where_doc_id_def coll_delete_def filter_empty_conv)

lemma snd_delete_document:
  "snd (delete_document (Some c) d) =
     Some (coll_delete c (map chunk_id (coll_get_where_doc_id c d)))"
  by (simp add: delete_document_def Let_def coll_delete_nothing)

lemma snd_clear_collection: "snd (clear_collection (Some c)) = Some []"
  by (cases c) (simp_all add: clear_collection_def Let_def coll_delete_all del: list.map)

text \<open>
  C9: on an initialised collection \<^verbatim>\<open>clear_collection\<close> succeeds and leaves a count of
  zero, and a second call succeeds and changes nothing; \<^verbatim>\<open>delete_document\<close> succeeds,
  for an id that no stored chunk carries it removes nothing and leaves the collection as it
  was, and a second call with the same id changes nothing.
\<close>

theorem clear_and_delete_idempotent:
  assumes "coll = Some c" and "coll_get_where_doc_id c absent_id = []"
  shows "fst (fst (clear_collection coll)) \<and>
         get_collection_info (snd (clear_collection coll)) = Active 0 COLLECTION_NAME \<and>
         clear_collection (snd (clear_collection coll)) =
           ((True, lit ''Collection was already empty''), snd (clear_collection coll)) \<and>
         delete_document coll absent_id =
           ((True, lit ''No chunks found for this document''), coll) \<and>
         fst (fst (delete_document coll doc_id)) \<and>
         delete_document (snd (delete_document coll doc_id)) doc_id =
           ((True, lit ''No chunks found for this document''),
            snd (delete_document coll doc_id))"
proof -
  have 1: "fst (fst (clear_collection coll))"
    using assms(1) by (simp add: clear_collection_def Let_def)
  have 2: "snd (clear_collection coll) = Some []"
    using assms(1) snd_clear_collection by simp
  have 3: "clear_collection (Some []) =
             ((True, lit ''Collection was already empty''), Some [])"
    by (simp add: clear_collection_def)
  have 4: "delete_document coll absent_id =
             ((True, lit ''No chunks found for this document''), coll)"
    using assms by (simp add: delete_document_def)
  have 5: "fst (fst (delete_document coll doc_id))"
    using assms(1) by (simp add: delete_document_def Let_def)
  have 6: "delete_document (snd (delete_document coll doc_id)) doc_id =
           ((True, lit ''No chunks found for this document''),
            snd (delete_document coll doc_id))"
    unfolding assms(1) snd_delete_document
    by (simp add: delete_document_def coll_get_after_delete)
  show ?thesis using 1 2 3 4 5 6
    by (simp add: get_collection_info_def coll_count_def)
qed

lemma cto_chunk_not_d2: "coll_get_where_doc_id [cto_chunk] (lit ''d2'') = []"
  by (simp add: coll_get_where_doc_id_def cto_chunk_def lit_def)

theorem clear_and_delete_idempotent_witness:
  "coll_get_where_doc_id [cto_chunk] (lit ''d2'') = [] \<and>
   get_collection_info (snd (clear_collection (Some [cto_chunk]))) = Active 0 COLLECTION_NAME \<and>
   snd (delete_document (Some [cto_chunk]) (lit ''d2'')) = Some [cto_chunk]"
  using clear_and_delete_idempotent [OF refl cto_chunk_not_d2] cto_chunk_not_d2
  by simp

subsection \<open>Confidence\<close>

lemma confidence_loop_sums:
  "confidence_loop i ss (ws, tw) =
     (ws + (\<Sum>j<length ss. ss ! j * (1 / real (i + j + 1))),
      tw + (\<Sum>j<length ss. 1 / real (i + j + 1)))"
proof (induction ss arbitrary: i ws tw)
  case Nil
  then show ?case by simp
next
  case (Cons s ss)
  show ?case
    by (simp add: Cons.IH Let_def sum.lessThan_Suc_shift add.assoc del: sum.lessThan_Suc)
qed

lemma calculate_confidence_sums:
  assumes "has_ctx" and "scores \<noteq> []"
  shows "calculate_confidence scores has_ctx =
     min ((\<Sum>j<min 3 (length scores). scores ! j * (1 / real (j + 1))) /
          (\<Sum>j<min 3 (length scores). 1 / real (j + 1))) 1"
proof -
  let ?n = "min 3 (length scores)"
  have n: "length (take 3 scores) = ?n" by simp
  have pos: "0 < (\<Sum>j<?n. 1 / real (j + 1))"
  proof (rule sum_pos)
    show "{..<?n} \<noteq> {}" using assms(2) by (cases scores) auto
  qed simp_all
  have nth: "(\<Sum>j<?n. take 3 scores ! j * (1 / real (j + 1))) =
             (\<Sum>j<?n. scores ! j * (1 / real (j + 1)))"
    by (rule sum.cong) auto
  show ?thesis
    using assms pos
    by (simp add: calculate_confidence_def confidence_loop_sums n nth del: length_take)
qed

lemma calculate_confidence_range:
  assumes "\<forall>x\<in>set scores. 0 \<le> x"
  shows "0 \<le> calculate_confidence scores has_ctx \<and> calculate_confidence scores has_ctx \<le> 1"
proof (cases "\<not> has_ctx \<or> scores = []")
  case True
  then show ?thesis by (auto simp: calculate_confidence_def)
next
  case False
  let ?n = "min 3 (length scores)"
  have num: "0 \<le> (\<Sum>j<?n. scores ! j * (1 / real (j + 1)))"
    using assms by (intro sum_nonneg) simp
  have den: "0 \<le> (\<Sum>j<?n. 1 / real (j + 1))"
    by (intro sum_nonneg) simp
  from False have "calculate_confidence scores has_ctx =
     min ((\<Sum>j<?n. scores ! j * (1 / real (j + 1))) / (\<Sum>j<?n. 1 / real (j + 1))) 1"
    using calculate_confidence_sums by blast
  with num den show ?thesis by simp
qed

subsection \<open>Similarity search\<close>

lemma process_results_char:
  "process_results rs t docs scores =
     (if \<exists>r\<in>set rs. 1 + snd (snd r) = 0 then Inl ZeroDivisionError
      else Inr (docs @ map (\<lambda>(doc, md, d). \<lparr>content = doc, metadata = md, score = 1 / (1 + d)\<rparr>)
                         (filter (\<lambda>(doc, md, d). t \<le> 1 / (1 + d)) rs),
                scores @ map (\<lambda>(doc, md, d). 1 / (1 + d))
                           (filter (\<lambda>(doc, md, d). t \<le> 1 / (1 + d)) rs)))"
proof (induction rs arbitrary: docs scores)
  case Nil
  then show ?case by simp
next
  case (Cons r rs)
  obtain doc md d where r: "r = (doc, md, d)" by (cases r) auto
  show ?case
    by (simp add: r Cons.IH py_truediv_def)
qed

lemma filter_threshold_mono:
  fixes t1 t2 :: real
  assumes "t1 \<le> t2"
  shows "length (filter (\<lambda>(doc, md, d). t2 \<le> 1 / (1 + d)) rs)
           \<le> length (filter (\<lambda>(doc, md, d). t1 \<le> 1 / (1 + d)) rs)"
proof (induction rs)
  case Nil
  then show ?case by simp
next
  case (Cons r rs)
  then show ?case using assms by (cases r) auto
qed

lemma process_results_mono:
  assumes "t1 \<le> t2"
  shows "length (fst (case process_results rs t2 [] [] of Inl e \<Rightarrow> ([], []) | Inr found \<Rightarrow> found))
           \<le> length (fst (case process_results rs t1 [] [] of Inl e \<Rightarrow> ([], []) | Inr found \<Rightarrow> found))"
  using filter_threshold_mono [OF assms, of rs]
  by (simp add: process_results_char)

lemma similarity_search_mono:
  assumes "t1 \<le> t2"
  shows "length (fst (similarity_search U dfn coll q k t2))
           \<le> length (fst (similarity_search U dfn coll q k t1))"
  using process_results_mono [OF assms]
  by (simp add: similarity_search_def split: option.splits sum.splits list.splits)

lemma similarity_search_scores:
  "\<forall>x\<in>set (snd (similarity_search U dfn coll q k t)). t \<le> x"
  by (auto simp: similarity_search_def process_results_char
           split: option.splits sum.splits list.splits if_splits)

lemma similarity_search_lengths:
  "length (fst (similarity_search U dfn coll q k t)) =
     length (snd (similarity_search U dfn coll q k t))"
  by (auto simp: similarity_search_def process_results_char
           split: option.splits sum.splits list.splits if_splits)

lemma similarity_search_empty: "similarity_search U dfn (Some []) q k t = ([], [])"
  by (simp add: similarity_search_def coll_query_def split: sum.splits list.splits)

lemma coll_query_distances:
  "r \<in> set (coll_query dfn c e k) \<Longrightarrow> \<exists>ch\<in>set c. snd (snd r) = dfn e (embedding ch)"
  by (fastforce simp: coll_query_def dest!: in_set_takeD)

subsection \<open>Feature vectors\<close>

lemma map_result_truediv:
  "b \<noteq> 0 \<Longrightarrow> map_result (\<lambda>x. py_truediv (g x) b) xs = Inr (map (\<lambda>x. g x / b) xs)"
  by (induction xs) (simp_all add: py_truediv_def)

lemma pad_or_truncate_length:
  "length (if length e < n then e @ replicate (n - length e) z else take n e) = n"
  by simp

lemma py_truediv_numeral: "py_truediv x (numeral k) = Inr (x / numeral k)"
  by (simp add: py_truediv_def)

lemma or_one_nonzero: "real (if n = 0 then 1 else n) \<noteq> 0"
  by simp

lemma generate_improved_embedding_total:
  "\<exists>v. generate_improved_embedding U s = Inr v \<and> length v = 384"
proof -
  let ?words = "findall_words U [] (str_lower U s)"
  let ?cs = "sum_list (map snd (count_chars U [] (str_lower U s)))"
  have w: "real (if length ?words = 0 then 1 else length ?words) \<noteq> 0"
    by (rule or_one_nonzero)
  have b: "real (max (length (bigrams_of ?words)) 1) \<noteq> 0" by simp
  have c: "real (if ?cs = 0 then 1 else ?cs) \<noteq> 0"
    by (rule or_one_nonzero)
  show ?thesis
    unfolding generate_improved_embedding_def Let_def
    apply (simp only: map_result_truediv [OF w] map_result_truediv [OF b]
             map_result_truediv [OF c] py_truediv_numeral sum.case)
    apply (rule exI, rule conjI, rule refl)
    apply (rule pad_or_truncate_length)
    done
qed

lemma generate_improved_embeddings_total:
  "\<exists>vs. generate_improved_embeddings U texts = Inr vs \<and> length vs = length texts \<and>
        (\<forall>v\<in>set vs. length v = 384)"
  unfolding generate_improved_embeddings_def
proof (induction texts)
  case Nil
  then show ?case by simp
next
  case (Cons t ts)
  obtain v where "generate_improved_embedding U t = Inr v" "length v = 384"
    using generate_improved_embedding_total by blast
  with Cons show ?case by auto
qed

lemma str_lower_nil: "str_lower U [] = []"
  by (simp add: str_lower_def)

lemma count_chars_no_alpha:
  assumes "\<not> list_ex (is_alpha U) s"
  shows "count_chars U d s = d"
  using assms by (induction s arbitrary: d) auto

lemma zero_counts_embedding:
  assumes w: "findall_words U [] (str_lower U s) = []"
    and a: "\<not> list_ex (is_alpha U) (str_lower U s)"
  shows "generate_improved_embedding U s =
           Inr ([min (real (length s) / 2000) 1, 0,
                 (if list_ex (is_digit U) s then 1 else 0),
                 (if search_four_digits U 0 s then 1 else 0),
                 (if py_in (lit ''%'') s then 1 else 0),
                 (if any_in visual_words (str_lower U s) then 1 else 0),
                 (if py_in (lit ''visual'') (str_lower U s) \<and>
                     (py_in (lit ''description:'') (str_lower U s) \<or>
                      py_in (lit ''caption:'') (str_lower U s))
                  then 1 else 0)] @ replicate 377 0)"
proof -
  have k: "map (snd \<circ> (\<lambda>k. (k, 0::nat))) ks = replicate (length ks) 0" for ks :: "pystr list"
    by (simp add: o_def map_replicate_const)
  have lk: "length crm_keywords = 64"
    by (simp add: crm_keywords_def)
  have lb: "length important_bigrams = 11"
    by (simp add: important_bigrams_def)
  have m: "map_result (\<lambda>count. py_truediv (real count) 1) (replicate n 0) = Inr (replicate n 0)" for n
    by (induction n) (simp_all add: py_truediv_def)
  have c: "map_result (\<lambda>ch. py_truediv 0 1) cs = Inr (replicate (length cs) 0)" for cs :: pystr
    by (induction cs) (simp_all add: py_truediv_def)
  have lc: "length (lit ''aeioutrnslc'') = 11"
    by (simp add: lit_def)
  let ?lead = "[min (real (length s) / 2000) 1, 0,
                 (if list_ex (is_digit U) s then 1 else 0),
                 (if search_four_digits U 0 s then 1 else 0),
                 (if py_in (lit ''%'') s then 1 else 0),
                 (if any_in visual_words (str_lower U s) then 1 else 0),
                 (if py_in (lit ''visual'') (str_lower U s) \<and>
                     (py_in (lit ''description:'') (str_lower U s) \<or>
                      py_in (lit ''caption:'') (str_lower U s))
                  then 1 else (0::real))]"
  have "generate_improved_embedding U s =
          Inr (?lead @ replicate 64 0 @ replicate 11 0 @ replicate 11 0 @ replicate 291 0)"
    by (simp add: generate_improved_embedding_def w count_chars_no_alpha [OF a] k lk lb m c lc
          py_truediv_numeral Let_def)
  moreover have "replicate 64 (0::real) @ replicate 11 0 @ replicate 11 0 @ replicate 291 0
                   = replicate 377 0"
    by (simp add: replicate_add [symmetric])
  ultimately show ?thesis by simp
qed

lemma empty_text_embedding: "generate_improved_embedding U [] = Inr (replicate 384 0)"
proof -
  have v: "\<not> any_in visual_words []"
    by (simp add: any_in_def visual_words_def lit_def)
  have p: "\<not> py_in (lit ''%'') []" "\<not> py_in (lit ''visual'') []"
    by (simp_all add: lit_def)
  have "generate_improved_embedding U [] = Inr ([0, 0, 0, 0, 0, 0, 0] @ replicate 377 0)"
    using zero_counts_embedding [of U "[]"] v p by (simp add: str_lower_nil)
  moreover have "[0, 0, 0, 0, 0, 0, 0] @ replicate 377 (0::real) = replicate 384 0"
  proof (rule replicate_eqI)
    show "length ([0, 0, 0, 0, 0, 0, 0] @ replicate 377 (0::real)) = 384" by simp
    show "y = 0" if "y \<in> set ([0, 0, 0, 0, 0, 0, 0] @ replicate 377 (0::real))" for y
      using that by auto
  qed
  ultimately show ?thesis by simp
qed

subsection \<open>The retrieval of a query\<close>

lemma text_search_fallback_empty: "text_search_fallback U (Some []) q = []"
  by (simp add: text_search_fallback_def)

lemma retrieve_empty: "retrieve ext (Some []) q = ([], [])"
  by (simp add: retrieve_def similarity_search_empty text_search_fallback_empty)

lemma retrieve_lengths: "length (fst (retrieve ext coll q)) = length (snd (retrieve ext coll q))"
  using similarity_search_lengths
    [of "tables ext" "distance_fn ext" coll q
        "top_k_of (determine_query_type (tables ext) q)" "0.01"]
  by (auto simp: retrieve_def Let_def split: prod.splits)

lemma retrieve_scores_nonneg: "\<forall>x\<in>set (snd (retrieve ext coll q)). 0 \<le> x"
proof -
  have "\<forall>x\<in>set (snd (similarity_search (tables ext) (distance_fn ext) coll q
                        (top_k_of (determine_query_type (tables ext) q)) 0.01)). 0 \<le> x"
    using similarity_search_scores
      [of "tables ext" "distance_fn ext" coll q
          "top_k_of (determine_query_type (tables ext) q)" "0.01"]
    by fastforce
  then show ?thesis
    by (auto simp: retrieve_def Let_def split: prod.splits dest: in_set_takeD)
qed

lemma process_query_response:
  "fst (process_query ext coll sessions q sid) =
     \<lparr>response = generate_response ext q
                   (build_context (format_2f ext) (fst (retrieve ext coll q))
                      (determine_query_type (tables ext) q))
                   (fst (retrieve ext coll q) \<noteq> [])
                   (get_conversation_context (tables ext) sessions sid q)
                   (determine_query_type (tables ext) q)
                   (is_visual_query (tables ext) q),
      sources = extract_sources (fst (retrieve ext coll q)),
      confidence = calculate_confidence (snd (retrieve ext coll q))
                     (fst (retrieve ext coll q) \<noteq> []),
      has_context = (fst (retrieve ext coll q) \<noteq> [])\<rparr>"
  by (simp add: process_query_def Let_def split: prod.splits)

subsection \<open>A store of two chunks\<close>

lemma squared_l2_nonneg: "0 \<le> squared_l2 u v"
  by (auto simp: squared_l2_def intro!: sum_list_nonneg)

lemma squared_l2_padded:
  assumes "length p = length q"
  shows "squared_l2 (p @ replicate n 0) (q @ replicate n 0) = squared_l2 p q"
  using assms by (simp add: squared_l2_def zip_replicate sum_list_replicate)

lemma percent_words: "findall_words no_tables [] (str_lower no_tables (lit ''%'')) = []"
  by code_simp

lemma percent_letters: "\<not> list_ex (is_alpha no_tables) (str_lower no_tables (lit ''%''))"
  by code_simp

lemma percent_digits: "\<not> list_ex (is_digit no_tables) (lit ''%'')"
  by code_simp

lemma percent_year: "\<not> search_four_digits no_tables 0 (lit ''%'')"
  by code_simp

lemma percent_sign: "py_in (lit ''%'') (lit ''%'')"
  by code_simp

lemma percent_visual: "\<not> any_in visual_words (str_lower no_tables (lit ''%''))"
  by code_simp

lemma percent_visual_chunk: "\<not> py_in (lit ''visual'') (str_lower no_tables (lit ''%''))"
  by code_simp

lemma percent_length: "length (lit ''%'') = 1"
  by (simp add: lit_def)

lemma percent_embedding:
  "generate_improved_embedding no_tables (lit ''%'') = Inr percent_vector"
  using zero_counts_embedding [OF percent_words percent_letters]
    percent_digits percent_year percent_sign percent_visual percent_visual_chunk
  by (simp add: percent_length percent_vector_def)

lemma two_chunk_query:
  "coll_query squared_l2 [percent_chunk, question_chunk] percent_vector 15 =
   [(lit ''%'', chunk_metadata percent_chunk, 0), (lit ''?'', chunk_metadata question_chunk, 1)]"
proof -
  have a: "squared_l2 percent_vector percent_vector = 0"
    by (simp add: percent_vector_def squared_l2_def zip_replicate sum_list_replicate)
  have b: "squared_l2 percent_vector question_vector = 1"
    by (simp add: percent_vector_def question_vector_def squared_l2_def zip_replicate
          sum_list_replicate)
  show ?thesis
    by (simp add: coll_query_def percent_chunk_def question_chunk_def a b)
qed

text \<open>
  C4: with the query, \<^verbatim>\<open>top_k\<close> and the stored chunks fixed, raising the threshold
  never increases the number of results; and for a distance that is never negative the
  search returns exactly the query results whose similarity \<open>1 / (1 + d)\<close> is at least
  the threshold, in the order of the query results.
\<close>

theorem threshold_filter_monotone:
  assumes "t1 \<le> t2" and "\<forall>u v. 0 \<le> dfn u v"
  shows "length (fst (similarity_search U dfn coll q k t2))
           \<le> length (fst (similarity_search U dfn coll q k t1)) \<and>
         (\<exists>e. generate_improved_embedding U q = Inr e \<and>
            similarity_search U dfn (Some c) q k t1 =
              (map (\<lambda>(doc, md, d). \<lparr>content = doc, metadata = md, score = 1 / (1 + d)\<rparr>)
                 (filter (\<lambda>(doc, md, d). t1 \<le> 1 / (1 + d)) (coll_query dfn c e k)),
               map (\<lambda>(doc, md, d). 1 / (1 + d))
                 (filter (\<lambda>(doc, md, d). t1 \<le> 1 / (1 + d)) (coll_query dfn c e k))))"
proof -
  obtain e where e: "generate_improved_embedding U q = Inr e"
    using generate_improved_embedding_total by blast
  have "1 + snd (snd r) \<noteq> 0" if rin: "r \<in> set (coll_query dfn c e k)" for r
  proof -
    obtain ch :: chunk where "snd (snd r) = dfn e (embedding ch)"
      using coll_query_distances [OF rin] by blast
    moreover have "0 \<le> dfn e (embedding ch)" using assms(2) by blast
    ultimately show ?thesis by simp
  qed
  then have "\<not> (\<exists>r\<in>set (coll_query dfn c e k). 1 + snd (snd r) = 0)" by blast
  then have "similarity_search U dfn (Some c) q k t1 =
              (map (\<lambda>(doc, md, d). \<lparr>content = doc, metadata = md, score = 1 / (1 + d)\<rparr>)
                 (filter (\<lambda>(doc, md, d). t1 \<le> 1 / (1 + d)) (coll_query dfn c e k)),
               map (\<lambda>(doc, md, d). 1 / (1 + d))
                 (filter (\<lambda>(doc, md, d). t1 \<le> 1 / (1 + d)) (coll_query dfn c e k)))"
    by (simp add: similarity_search_def generate_improved_embeddings_def e process_results_char)
  with e similarity_search_mono [OF assms(1)] show ?thesis by blast
qed

theorem threshold_filter_monotone_witness:
  "(1 / 100 :: real) \<le> 3 / 5 \<and>
   (\<forall>u v. 0 \<le> squared_l2 u v) \<and>
   similarity_search no_tables squared_l2 (Some [percent_chunk, question_chunk]) (lit ''%'') 15
       (1 / 100) =
     ([\<lparr>content = lit ''%'', metadata = chunk_metadata percent_chunk, score = 1\<rparr>,
       \<lparr>content = lit ''?'', metadata = chunk_metadata question_chunk, score = 1 / 2\<rparr>],
      [1, 1 / 2]) \<and>
   similarity_search no_tables squared_l2 (Some [percent_chunk, question_chunk]) (lit ''%'') 15
       (3 / 5) =
     ([\<lparr>content = lit ''%'', metadata = chunk_metadata percent_chunk, score = 1\<rparr>], [1]) \<and>
   length (fst (similarity_search no_tables squared_l2 (Some [percent_chunk, question_chunk])
                  (lit ''%'') 15 (3 / 5)))
     \<le> length (fst (similarity_search no_tables squared_l2
                  (Some [percent_chunk, question_chunk]) (lit ''%'') 15 (1 / 100)))"
proof -
  have a: "(1 / 100 :: real) \<le> 3 / 5" by simp
  have b: "\<forall>u v. 0 \<le> squared_l2 u v" by (simp add: squared_l2_nonneg)
  have r: "(3 / 5 :: real) \<le> 3 / 5" by simp
  have same: "e = percent_vector" if "generate_improved_embedding no_tables (lit ''%'') = Inr e" for e
    using that unfolding percent_embedding by (rule Inr_inject [symmetric])
  from threshold_filter_monotone [OF a b, of no_tables "Some [percent_chunk, question_chunk]"
      "lit ''%''" 15 "[percent_chunk, question_chunk]"]
  obtain e where e: "generate_improved_embedding no_tables (lit ''%'') = Inr e"
    and low_e: "similarity_search no_tables squared_l2 (Some [percent_chunk, question_chunk])
                  (lit ''%'') 15 (1 / 100) =
      (map (\<lambda>(doc, md, d). \<lparr>content = doc, metadata = md, score = 1 / (1 + d)\<rparr>)
         (filter (\<lambda>(doc, md, d). 1 / 100 \<le> 1 / (1 + d))
            (coll_query squared_l2 [percent_chunk, question_chunk] e 15)),
       map (\<lambda>(doc, md, d). 1 / (1 + d))
         (filter (\<lambda>(doc, md, d). 1 / 100 \<le> 1 / (1 + d))
            (coll_query squared_l2 [percent_chunk, question_chunk] e 15)))"
    and mono: "length (fst (similarity_search no_tables squared_l2
                  (Some [percent_chunk, question_chunk]) (lit ''%'') 15 (3 / 5)))
     \<le> length (fst (similarity_search no_tables squared_l2
                  (Some [percent_chunk, question_chunk]) (lit ''%'') 15 (1 / 100)))"
    by blast
  have low: "similarity_search no_tables squared_l2 (Some [percent_chunk, question_chunk])
               (lit ''%'') 15 (1 / 100) =
     ([\<lparr>content = lit ''%'', metadata = chunk_metadata percent_chunk, score = 1\<rparr>,
       \<lparr>content = lit ''?'', metadata = chunk_metadata question_chunk, score = 1 / 2\<rparr>],
      [1, 1 / 2])"
    unfolding low_e same [OF e] two_chunk_query by simp
  from threshold_filter_monotone [OF r b, of no_tables "Some [percent_chunk, question_chunk]"
      "lit ''%''" 15 "[percent_chunk, question_chunk]"]
  obtain e' where e': "generate_improved_embedding no_tables (lit ''%'') = Inr e'"
    and high_e: "similarity_search no_tables squared_l2 (Some [percent_chunk, question_chunk])
                  (lit ''%'') 15 (3 / 5) =
      (map (\<lambda>(doc, md, d). \<lparr>content = doc, metadata = md, score = 1 / (1 + d)\<rparr>)
         (filter (\<lambda>(doc, md, d). 3 / 5 \<le> 1 / (1 + d))
            (coll_query squared_l2 [percent_chunk, question_chunk] e' 15)),
       map (\<lambda>(doc, md, d). 1 / (1 + d))
         (filter (\<lambda>(doc, md, d). 3 / 5 \<le> 1 / (1 + d))
            (coll_query squared_l2 [percent_chunk, question_chunk] e' 15)))"
    by blast
  have high: "similarity_search no_tables squared_l2 (Some [percent_chunk, question_chunk])
               (lit ''%'') 15 (3 / 5) =
     ([\<lparr>content = lit ''%'', metadata = chunk_metadata percent_chunk, score = 1\<rparr>], [1])"
    unfolding high_e same [OF e'] two_chunk_query by simp
  from a b low high mono show ?thesis by blast
qed

text \<open>
  C6: on an empty index the similarity search returns the pair of empty lists, and the
  response to any query is the ordinary response without context: \<^verbatim>\<open>has_context\<close> false,
  confidence 0, no sources, and the text that the generation step produces for a query
  without context.
\<close>

theorem empty_index_no_context:
  "similarity_search U dfn (Some []) q k t = ([], []) \<and>
   retrieve ext (Some []) q = ([], []) \<and>
   fst (process_query ext (Some []) sessions q sid) =
     \<lparr>response = generate_response ext q []
                   False (get_conversation_context (tables ext) sessions sid q)
                   (determine_query_type (tables ext) q) (is_visual_query (tables ext) q),
      sources = [], confidence = 0, has_context = False\<rparr>"
  by (simp add: similarity_search_empty retrieve_empty process_query_response
        build_context_def extract_sources_def calculate_confidence_def)

theorem empty_index_no_context_witness:
  "similarity_search no_tables squared_l2 (Some []) (lit ''Who is Ramesh Iyer?'') 15 0.01
     = ([], []) \<and>
   has_context (fst (process_query example_ext (Some []) Map.empty
                       (lit ''Who is Ramesh Iyer?'') (lit ''s1''))) = False \<and>
   response (fst (process_query example_ext (Some []) Map.empty
                    (lit ''Who is Ramesh Iyer?'') (lit ''s1''))) = lit ''ok''"
  using empty_index_no_context
    [of no_tables squared_l2 "lit ''Who is Ramesh Iyer?''" 15 "0.01" example_ext Map.empty
        "lit ''s1''"]
  by (simp add: example_ext_def)

text \<open>
  C8: the feature vector is defined for every text (no division fails) and has 384
  entries; for the empty text every entry is 0; and for a text with no words and no
  letters, where the word count, the bigram count and the letter count are 0 and each
  divisor is replaced by 1, every frequency feature is 0.
\<close>

theorem vectorizer_total:
  "(\<exists>v. generate_improved_embedding U s = Inr v \<and> length v = 384) \<and>
   (\<exists>vs. generate_improved_embeddings U texts = Inr vs \<and> length vs = length texts) \<and>
   generate_improved_embedding U [] = Inr (replicate 384 0) \<and>
   (findall_words U [] (str_lower U s) = [] \<and> \<not> list_ex (is_alpha U) (str_lower U s) \<longrightarrow>
      generate_improved_embedding U s =
        Inr ([min (real (length s) / 2000) 1, 0,
              (if list_ex (is_digit U) s then 1 else 0),
              (if search_four_digits U 0 s then 1 else 0),
              (if py_in (lit ''%'') s then 1 else 0),
              (if any_in visual_words (str_lower U s) then 1 else 0),
              (if py_in (lit ''visual'') (str_lower U s) \<and>
                  (py_in (lit ''description:'') (str_lower U s) \<or>
                   py_in (lit ''caption:'') (str_lower U s))
               then 1 else 0)] @ replicate 377 0))"
  using generate_improved_embedding_total [of U s] generate_improved_embeddings_total [of U texts]
    empty_text_embedding [of U] zero_counts_embedding [of U s]
  by blast

theorem vectorizer_total_witness:
  "findall_words no_tables [] (str_lower no_tables (lit ''%'')) = [] \<and>
   \<not> list_ex (is_alpha no_tables) (str_lower no_tables (lit ''%'')) \<and>
   generate_improved_embedding no_tables (lit ''%'') =
     Inr ([1 / 2000, 0, 0, 0, 1, 0, 0] @ replicate 377 0)"
  using vectorizer_total [of no_tables "lit ''%''"] percent_words percent_letters
    percent_digits percent_year percent_sign percent_visual percent_visual_chunk
  by (simp add: percent_length)

subsection \<open>Letter case of ASCII text\<close>

lemma str_lower_ascii:
  assumes "\<forall>c\<in>set s. c < 128"
  shows "str_lower U s = map lower_cp s"
proof -
  have "map (\<lambda>i. if s ! i < 128 then [lower_cp (s ! i)] else uni_lower_at U s i) [0..<length s]
          = map (\<lambda>i. [lower_cp (s ! i)]) [0..<length s]"
    using assms by simp
  then have "str_lower U s = concat (map (\<lambda>i. [lower_cp (s ! i)]) [0..<length s])"
    by (simp only: str_lower_def)
  also have "\<dots> = map (\<lambda>i. lower_cp (s ! i)) [0..<length s]"
    by (rule concat_map_singleton)
  also have "\<dots> = map lower_cp s"
    by (rule nth_equalityI) simp_all
  finally show ?thesis .
qed

lemma str_lower_capitalised:
  assumes "is_upper c" and "\<forall>x\<in>set (c # cs). x < 128"
  shows "str_lower U (c # cs) \<noteq> c # cs"
  using assms by (simp add: str_lower_ascii lower_cp_def)

subsection \<open>Proper-name patterns\<close>

lemma match_cap_word_head:
  assumes "match_cap_word n s = Some k"
  shows "0 < k \<and> (\<exists>c cs. s = c # cs \<and> is_upper c) \<and> (\<forall>x\<in>set (take k s). x < 128)"
proof -
  from assms obtain c cs where s: "s = c # cs" and c: "is_upper c"
    and k: "k = Suc (length (takeWhile is_lower cs))"
    by (auto simp: match_cap_word_def Let_def split: list.splits if_splits)
  have "take (length (takeWhile is_lower cs)) cs = takeWhile is_lower cs"
    by (simp add: takeWhile_eq_take [symmetric])
  then have "\<forall>x\<in>set (take (length (takeWhile is_lower cs)) cs). is_lower x"
    by (metis set_takeWhileD)
  then have "\<forall>x\<in>set (take k s). x < 128"
    using c by (auto simp: s k is_upper_def is_lower_def)
  with s c k show ?thesis by simp
qed

lemma match_full_name_head:
  assumes "match_full_name U s = Some k"
  shows "0 < k \<and> (\<exists>c cs. s = c # cs \<and> is_upper c) \<and> (\<forall>x\<in>set (take k s). x < 128)"
proof -
  from assms obtain k1 rest k2 where k1: "match_cap_word 1 s = Some k1"
    and d: "drop k1 s = 32 # rest" and k2: "match_cap_word 1 rest = Some k2"
    and k: "k = k1 + 1 + k2"
    by (auto simp: match_full_name_def split: option.splits list.splits if_splits)
  have "k = k1 + (1 + k2)" by (simp add: k)
  then have "take k s = take k1 s @ take (1 + k2) (drop k1 s)"
    by (simp only: take_add)
  then have "take k s = take k1 s @ 32 # take k2 rest"
    by (simp add: d)
  with match_cap_word_head [OF k1] match_cap_word_head [OF k2] k show ?thesis
    by auto
qed

lemma match_single_name_head:
  assumes "match_single_name U s = Some k"
  shows "0 < k \<and> (\<exists>c cs. s = c # cs \<and> is_upper c) \<and> (\<forall>x\<in>set (take k s). x < 128)"
  using assms match_cap_word_head [of 2 s k]
  by (auto simp: match_single_name_def split: option.splits if_splits)

lemma findall_from_capitalised:
  assumes m: "\<And>s k. m s = Some k \<Longrightarrow>
                0 < k \<and> (\<exists>c cs. s = c # cs \<and> is_upper c) \<and> (\<forall>x\<in>set (take k s). x < 128)"
    and t: "t \<in> set (findall_from U m prev_word skip s)"
  shows "(\<exists>c cs. t = c # cs \<and> is_upper c) \<and> (\<forall>x\<in>set t. x < 128)"
  using t
proof (induction s arbitrary: prev_word skip)
  case Nil
  then show ?case by simp
next
  case (Cons a s)
  show ?case
  proof (cases "0 < skip \<or> prev_word \<or> m (a # s) = None")
    case True
    with Cons show ?thesis by (auto split: if_splits)
  next
    case False
    then obtain k where k: "m (a # s) = Some k" by auto
    from m [OF k] have pos: "0 < k" and up: "is_upper a"
      and asc: "\<forall>x\<in>set (take k (a # s)). x < 128" by auto
    from pos obtain k' where k': "k = Suc k'" by (cases k) auto
    from False k Cons.prems
    have "t = take k (a # s) \<or> t \<in> set (findall_from U m (is_word U a) (k - 1) s)"
      by auto
    then show ?thesis
    proof
      assume "t = take k (a # s)"
      then show ?thesis using up k' asc by simp
    next
      assume "t \<in> set (findall_from U m (is_word U a) (k - 1) s)"
      then show ?thesis by (rule Cons.IH)
    qed
  qed
qed

lemma proper_name_terms_not_lowercase:
  assumes "t \<in> set (findall_full_names U q) \<union> set (findall_single_names U q)"
  shows "str_lower U t \<noteq> t"
proof -
  from assms have "(\<exists>c cs. t = c # cs \<and> is_upper c) \<and> (\<forall>x\<in>set t. x < 128)"
    unfolding findall_full_names_def findall_single_names_def
    using findall_from_capitalised [of "match_full_name U" t U False 0 q]
          findall_from_capitalised [of "match_single_name U" t U False 0 q]
          match_full_name_head [of U] match_single_name_head [of U]
    by blast
  then show ?thesis using str_lower_capitalised by blast
qed

lemma name_keywords_lowercase:
  assumes "k \<in> set name_keywords"
  shows "str_lower U k = k"
proof -
  have "list_all (\<lambda>k. list_all (\<lambda>c. c < 128) k \<and> map lower_cp k = k) name_keywords"
    by code_simp
  with assms have "(\<forall>c\<in>set k. c < 128) \<and> map lower_cp k = k"
    by (simp add: list_all_iff)
  then show ?thesis by (simp add: str_lower_ascii)
qed

lemma search_terms_of_classes:
  "set (search_terms_of U q) \<subseteq>
     set (findall_full_names U q) \<union> set (findall_single_names U q) \<union>
     set name_keywords \<union> {str_lower U q}"
  by (auto simp: search_terms_of_def Let_def)

subsection \<open>Keyword scores\<close>

lemma match_score_loop_char:
  "match_score_loop U cl terms ms =
     (if list_ex (\<lambda>t. py_in (str_lower U t) cl \<and> str_lower U t = t) terms then max ms 0.95
      else if list_ex (\<lambda>t. py_in (str_lower U t) cl) terms then max ms 0.9
      else ms)"
  by (induction terms arbitrary: ms) (auto simp: max_def)

lemma scan_chunks_char:
  "scan_chunks U terms chs acc =
     acc @ map (\<lambda>ch. \<lparr>content = document ch, metadata = chunk_metadata ch,
                       score = (if list_ex (\<lambda>t. py_in (str_lower U t) (str_lower U (document ch))
                                                  \<and> str_lower U t = t) terms
                                then 0.95 else 0.9)\<rparr>)
             (filter (\<lambda>ch. list_ex (\<lambda>t. py_in (str_lower U t) (str_lower U (document ch))) terms)
                chs)"
proof (induction chs arbitrary: acc)
  case Nil
  then show ?case by simp
next
  case (Cons ch chs)
  show ?case
    by (auto simp: Cons.IH match_score_loop_char Let_def list_ex_iff)
qed

lemma text_search_fallback_char:
  "text_search_fallback U (Some c) q =
     take 10 (sort_key (\<lambda>m. - score m)
       (map (\<lambda>ch. \<lparr>content = document ch, metadata = chunk_metadata ch,
                    score = (if list_ex (\<lambda>t. py_in (str_lower U t) (str_lower U (document ch))
                                               \<and> str_lower U t = t)
                                  (search_terms_of U q)
                             then 0.95 else 0.9)\<rparr>)
          (filter (\<lambda>ch. list_ex (\<lambda>t. py_in (str_lower U t) (str_lower U (document ch)))
                           (search_terms_of U q))
             c)))"
  by (simp add: text_search_fallback_def scan_chunks_char Let_def)

subsection \<open>One query against one chunk\<close>

lemma ramesh_terms:
  "search_terms_of no_tables (lit ''Who is Ramesh Iyer?'') =
     map lit [''Ramesh Iyer'', ''Who'', ''Ramesh'', ''Iyer'', ''ramesh'', ''iyer'']"
  by code_simp

lemma ramesh_hit:
  "list_ex (\<lambda>t. py_in (str_lower no_tables t) (str_lower no_tables (document cto_chunk)))
     (search_terms_of no_tables (lit ''Who is Ramesh Iyer?''))"
  by code_simp

lemma ramesh_lower_hit:
  "list_ex (\<lambda>t. py_in (str_lower no_tables t) (str_lower no_tables (document cto_chunk))
                 \<and> str_lower no_tables t = t)
     (search_terms_of no_tables (lit ''Who is Ramesh Iyer?''))"
  by code_simp

lemma ramesh_first_hit:
  "find (\<lambda>t. py_in (str_lower no_tables t) (str_lower no_tables (document cto_chunk)))
     (search_terms_of no_tables (lit ''Who is Ramesh Iyer?'')) = Some (lit ''Ramesh Iyer'')"
  by code_simp

lemma ramesh_iyer_no_keyword: "lit ''Ramesh Iyer'' \<notin> set name_keywords"
  by code_simp

lemma ramesh_iyer_not_lowercase: "str_lower no_tables (lit ''Ramesh Iyer'') \<noteq> lit ''Ramesh Iyer''"
  by code_simp

lemma ramesh_lowercase: "str_lower no_tables (lit ''ramesh'') = lit ''ramesh''"
  by code_simp

lemma ramesh_keyword: "lit ''ramesh'' \<in> set name_keywords"
  by code_simp

lemma ramesh_fallback:
  "text_search_fallback no_tables (Some [cto_chunk]) (lit ''Who is Ramesh Iyer?'') =
   [\<lparr>content = document cto_chunk, metadata = chunk_metadata cto_chunk, score = 0.95\<rparr>]"
  unfolding text_search_fallback_char
  by (simp add: ramesh_hit ramesh_lower_hit)

lemma ramesh_name_query: "is_name_query no_tables (lit ''Who is Ramesh Iyer?'')"
  by code_simp

lemma ramesh_default:
  "determine_query_type no_tables (lit ''Who is Ramesh Iyer?'') = lit ''default''"
  by code_simp

lemma top_k_default: "top_k_of (lit ''default'') = 15"
  by code_simp

lemma ramesh_similarity:
  "similarity_search no_tables squared_l2 (Some [cto_chunk]) (lit ''Who is Ramesh Iyer?'') 15
     (1 / 100) =
   ([\<lparr>content = document cto_chunk, metadata = chunk_metadata cto_chunk, score = 1\<rparr>], [1])"
proof -
  obtain e where e: "generate_improved_embedding no_tables (lit ''Who is Ramesh Iyer?'') = Inr e"
    using generate_improved_embedding_total by blast
  have d: "squared_l2 e (embedding cto_chunk) = 0"
    by (simp add: squared_l2_def cto_chunk_def)
  show ?thesis
    by (simp add: similarity_search_def generate_improved_embeddings_def e coll_query_def
          py_truediv_def d)
qed

lemma ramesh_retrieve:
  "retrieve example_ext (Some [cto_chunk]) (lit ''Who is Ramesh Iyer?'') =
   ([\<lparr>content = document cto_chunk, metadata = chunk_metadata cto_chunk, score = 19 / 20\<rparr>,
     \<lparr>content = document cto_chunk, metadata = chunk_metadata cto_chunk, score = 1\<rparr>],
    [9 / 10, 1])"
  by (simp add: retrieve_def example_ext_def ramesh_default top_k_default ramesh_similarity
        ramesh_name_query ramesh_fallback)

text \<open>
  C2, as the specification states it, fails: for the query ``Who is Ramesh Iyer?'' and the
  chunk ``Ramesh Iyer is the CTO.'' the first search term found in the chunk is the proper
  name ``Ramesh Iyer'', so the first match would give 0.9, but the search scores the chunk
  0.95, because the keyword ``ramesh'' matches as well.
\<close>

theorem first_match_score_counterexample:
  "find (\<lambda>t. py_in (str_lower no_tables t) (str_lower no_tables (document cto_chunk)))
     (search_terms_of no_tables (lit ''Who is Ramesh Iyer?'')) = Some (lit ''Ramesh Iyer'') \<and>
   spec_first_match_score no_tables (str_lower no_tables (document cto_chunk))
     (search_terms_of no_tables (lit ''Who is Ramesh Iyer?'')) = 0.9 \<and>
   map score (text_search_fallback no_tables (Some [cto_chunk]) (lit ''Who is Ramesh Iyer?''))
     = [0.95] \<and>
   map score (text_search_fallback no_tables (Some [cto_chunk]) (lit ''Who is Ramesh Iyer?''))
     \<noteq> [spec_first_match_score no_tables (str_lower no_tables (document cto_chunk))
          (search_terms_of no_tables (lit ''Who is Ramesh Iyer?''))]"
proof -
  have s: "spec_first_match_score no_tables (str_lower no_tables (document cto_chunk))
             (search_terms_of no_tables (lit ''Who is Ramesh Iyer?'')) = 0.9"
    unfolding spec_first_match_score_def ramesh_first_hit using ramesh_iyer_no_keyword by simp
  show ?thesis
    unfolding s ramesh_fallback using ramesh_first_hit by simp
qed

text \<open>
  C2, amended: the keyword fallback search returns the 10 best of the chunks that contain
  at least one search term, each with the maximum of the scores of its matching terms:
  0.95 when some matching term equals its own lowercase form, 0.9 otherwise. Scores are
  never summed and the order of the terms plays no role. A search term is a proper-name
  term, which never equals its lowercase form, or a term of the fixed keyword list, which
  always does, or the lowercased query.
\<close>

theorem keyword_score_is_maximum:
  "text_search_fallback U (Some c) q =
     take 10 (sort_key (\<lambda>m. - score m)
       (map (\<lambda>ch. \<lparr>content = document ch, metadata = chunk_metadata ch,
                    score = (if list_ex (\<lambda>t. py_in (str_lower U t) (str_lower U (document ch))
                                               \<and> str_lower U t = t)
                                  (search_terms_of U q)
                             then 0.95 else 0.9)\<rparr>)
          (filter (\<lambda>ch. list_ex (\<lambda>t. py_in (str_lower U t) (str_lower U (document ch)))
                           (search_terms_of U q))
             c))) \<and>
   (\<forall>t\<in>set (search_terms_of U q).
      (t \<in> set (findall_full_names U q) \<union> set (findall_single_names U q) \<and> str_lower U t \<noteq> t) \<or>
      (t \<in> set name_keywords \<and> str_lower U t = t) \<or>
      t = str_lower U q)"
proof -
  have "(t \<in> set (findall_full_names U q) \<union> set (findall_single_names U q) \<and> str_lower U t \<noteq> t) \<or>
        (t \<in> set name_keywords \<and> str_lower U t = t) \<or> t = str_lower U q"
    if "t \<in> set (search_terms_of U q)" for t
    using that search_terms_of_classes [of U q] proper_name_terms_not_lowercase [of t U q]
      name_keywords_lowercase [of t U]
    by auto
  then show ?thesis using text_search_fallback_char by blast
qed

theorem keyword_score_is_maximum_witness:
  "text_search_fallback no_tables (Some [cto_chunk]) (lit ''Who is Ramesh Iyer?'') =
     [\<lparr>content = document cto_chunk, metadata = chunk_metadata cto_chunk, score = 0.95\<rparr>] \<and>
   lit ''Ramesh Iyer'' \<in> set (search_terms_of no_tables (lit ''Who is Ramesh Iyer?'')) \<and>
   str_lower no_tables (lit ''Ramesh Iyer'') \<noteq> lit ''Ramesh Iyer'' \<and>
   lit ''ramesh'' \<in> set (search_terms_of no_tables (lit ''Who is Ramesh Iyer?'')) \<and>
   lit ''ramesh'' \<in> set name_keywords \<and>
   str_lower no_tables (lit ''ramesh'') = lit ''ramesh''"
proof -
  have a: "lit ''Ramesh Iyer'' \<in> set (search_terms_of no_tables (lit ''Who is Ramesh Iyer?''))"
    and b: "lit ''ramesh'' \<in> set (search_terms_of no_tables (lit ''Who is Ramesh Iyer?''))"
    by (simp_all add: ramesh_terms)
  from keyword_score_is_maximum [of no_tables "[cto_chunk]" "lit ''Who is Ramesh Iyer?''"]
  show ?thesis
    using a b ramesh_iyer_not_lowercase ramesh_lowercase ramesh_keyword ramesh_fallback
    by simp
qed

text \<open>
  C1: for a name query whose keyword fallback search finds something, the merged result
  is the keyword matches followed by the first 10 results of the similarity search, and
  the merged scores are 0.9 for each keyword match followed by the first 10 scores of the
  similarity search.
\<close>

theorem name_query_priority:
  assumes "is_name_query (tables ext) q"
    and "text_search_fallback (tables ext) coll q \<noteq> []"
  shows "(let ts = text_search_fallback (tables ext) coll q;
              found = similarity_search (tables ext) (distance_fn ext) coll q
                        (top_k_of (determine_query_type (tables ext) q)) 0.01;
              merged = retrieve ext coll q
          in fst merged = ts @ take 10 (fst found) \<and>
             snd merged = replicate (length ts) 0.9 @ take 10 (snd found) \<and>
             take (length ts) (fst merged) = ts \<and>
             drop (length ts) (fst merged) = take 10 (fst found) \<and>
             length (drop (length ts) (fst merged)) \<le> 10)"
  using assms by (simp add: retrieve_def Let_def split: prod.splits)

theorem name_query_priority_witness:
  "is_name_query (tables example_ext) (lit ''Who is Ramesh Iyer?'') \<and>
   text_search_fallback (tables example_ext) (Some [cto_chunk]) (lit ''Who is Ramesh Iyer?'')
     \<noteq> [] \<and>
   retrieve example_ext (Some [cto_chunk]) (lit ''Who is Ramesh Iyer?'') =
     ([\<lparr>content = document cto_chunk, metadata = chunk_metadata cto_chunk, score = 19 / 20\<rparr>,
       \<lparr>content = document cto_chunk, metadata = chunk_metadata cto_chunk, score = 1\<rparr>],
      [9 / 10, 1])"
proof -
  have t: "tables example_ext = no_tables" by (simp add: example_ext_def)
  have nq: "is_name_query (tables example_ext) (lit ''Who is Ramesh Iyer?'')"
    unfolding t by (rule ramesh_name_query)
  have ne: "text_search_fallback (tables example_ext) (Some [cto_chunk])
              (lit ''Who is Ramesh Iyer?'') \<noteq> []"
    unfolding t by (simp add: ramesh_fallback)
  from name_query_priority [OF nq ne] nq ne ramesh_retrieve show ?thesis
    by simp
qed

text \<open>
  C5: the confidence of a response is 0 when no chunk was retrieved and otherwise the
  average of the first three scores of the ranked result, the score of rank \<open>j\<close>
  (from 0) weighted by \<open>1 / (j + 1)\<close>, capped at 1. It always lies between 0 and 1.
\<close>

theorem confidence_weighted_average:
  "(let docs = fst (retrieve ext coll q);
        scores = snd (retrieve ext coll q);
        n = min 3 (length scores);
        r = fst (process_query ext coll sessions q sid)
    in has_context r = (docs \<noteq> []) \<and>
       confidence r =
         (if docs = [] then 0
          else min ((\<Sum>j<n. scores ! j * (1 / real (j + 1))) / (\<Sum>j<n. 1 / real (j + 1))) 1) \<and>
       0 \<le> confidence r \<and> confidence r \<le> 1) \<and>
   calculate_confidence [] has_ctx = 0 \<and> calculate_confidence any_scores False = 0"
proof -
  let ?docs = "fst (retrieve ext coll q)"
  let ?scores = "snd (retrieve ext coll q)"
  have c: "confidence (fst (process_query ext coll sessions q sid)) =
             calculate_confidence ?scores (?docs \<noteq> [])"
    and h: "has_context (fst (process_query ext coll sessions q sid)) = (?docs \<noteq> [])"
    by (simp_all add: process_query_response)
  have e: "calculate_confidence ?scores (?docs \<noteq> []) = 0" if "?docs = []"
    using that by (simp add: calculate_confidence_def)
  have s: "calculate_confidence ?scores (?docs \<noteq> []) =
             min ((\<Sum>j<min 3 (length ?scores). ?scores ! j * (1 / real (j + 1))) /
                  (\<Sum>j<min 3 (length ?scores). 1 / real (j + 1))) 1" if "?docs \<noteq> []"
  proof (rule calculate_confidence_sums)
    show "?docs \<noteq> []" by (rule that)
    show "?scores \<noteq> []" using that retrieve_lengths [of ext coll q] by auto
  qed
  have r: "0 \<le> calculate_confidence ?scores (?docs \<noteq> []) \<and>
           calculate_confidence ?scores (?docs \<noteq> []) \<le> 1"
    using calculate_confidence_range [OF retrieve_scores_nonneg] by blast
  have z: "calculate_confidence [] has_ctx = 0" "calculate_confidence any_scores False = 0"
    by (simp_all add: calculate_confidence_def)
  show ?thesis
    unfolding Let_def c h using e s r z by auto
qed

theorem confidence_weighted_average_witness:
  "confidence (fst (process_query example_ext (Some [cto_chunk]) Map.empty
                      (lit ''Who is Ramesh Iyer?'') (lit ''s1''))) = 14 / 15 \<and>
   calculate_confidence [0.9, 0.5] False = 0"
  using confidence_weighted_average
    [of example_ext "Some [cto_chunk]" "lit ''Who is Ramesh Iyer?''" Map.empty "lit ''s1''" True
        "[0.9, 0.5]"]
  by (simp add: ramesh_retrieve Let_def numeral_2_eq_2)

subsection \<open>Context assembly\<close>

lemma summary_loop_char:
  "summary_loop i docs acc =
     acc @ map (\<lambda>(j, doc). lit ''[Source '' @ str_of_nat (j + 1) @ lit '': ''
                              @ py_str (source_of doc) @ lit '']'' @ lit ''\<newline>''
                              @ take 800 (content doc)
                              @ (if 800 < length (content doc) then lit ''...'' else []))
             (zip [i..<i + length docs] docs)"
proof (induction docs arbitrary: i acc)
  case Nil
  then show ?case by simp
next
  case (Cons doc docs)
  have "i < i + length (doc # docs)" by simp
  then have "[i..<i + length (doc # docs)] = i # [Suc i..<i + length (doc # docs)]"
    by (rule upt_conv_Cons)
  moreover have "i + length (doc # docs) = Suc i + length docs" by simp
  ultimately have u: "[i..<i + length (doc # docs)] = i # [Suc i..<Suc i + length docs]"
    by (simp only:)
  show ?case
    unfolding u by (simp add: Cons.IH Let_def)
qed

lemma summary_parts_length:
  "length (build_context_parts fmt2 docs (lit ''summary'')) = min 8 (length docs)"
  by (simp add: build_context_parts_def summary_loop_char min.commute)

lemma summary_parts_nth:
  assumes "j < length (build_context_parts fmt2 docs (lit ''summary''))"
  shows "build_context_parts fmt2 docs (lit ''summary'') ! j =
           lit ''[Source '' @ str_of_nat (j + 1) @ lit '': '' @ py_str (source_of (docs ! j))
           @ lit '']'' @ lit ''\<newline>'' @ take 800 (content (docs ! j))
           @ (if 800 < length (content (docs ! j)) then lit ''...'' else [])"
proof -
  from assms have j: "j < 8" "j < length docs"
    by (simp_all add: summary_parts_length)
  then show ?thesis
    by (simp add: build_context_parts_def summary_loop_char)
qed

text \<open>
  C3: for a query classified as summary the context is built from at most 8 chunks, the
  first ones of the ranked result, and what is taken from the content of a chunk is its
  first 800 characters at most, followed by an ellipsis when the content is longer.
\<close>

theorem summary_budget:
  assumes "determine_query_type U q = lit ''summary''"
  shows "length (build_context_parts fmt2 docs (determine_query_type U q))
           = min 8 (length docs) \<and>
         (\<forall>j<length (build_context_parts fmt2 docs (determine_query_type U q)).
            build_context_parts fmt2 docs (determine_query_type U q) ! j =
              lit ''[Source '' @ str_of_nat (j + 1) @ lit '': '' @ py_str (source_of (docs ! j))
              @ lit '']'' @ lit ''\<newline>'' @ take 800 (content (docs ! j))
              @ (if 800 < length (content (docs ! j)) then lit ''...'' else []) \<and>
            length (take 800 (content (docs ! j))) \<le> 800) \<and>
         build_context fmt2 docs (determine_query_type U q) =
           (if docs = [] then []
            else join (lit ''\<newline>\<newline>'')
                   (build_context_parts fmt2 docs (determine_query_type U q)))"
  using summary_parts_nth [of _ fmt2 docs] summary_parts_length [of fmt2 docs]
  by (simp add: assms build_context_def)

lemma summary_query:
  "determine_query_type no_tables (lit ''Give me a summary of the project'') = lit ''summary''"
  by code_simp

lemma cto_summary_part:
  "lit ''[Source '' @ str_of_nat (0 + 1) @ lit '': ''
     @ py_str (source_of \<lparr>content = document cto_chunk, metadata = chunk_metadata cto_chunk,
                          score = 1\<rparr>)
     @ lit '']'' @ lit ''\<newline>'' @ take 800 (document cto_chunk)
     @ (if 800 < length (document cto_chunk) then lit ''...'' else [])
   = lit ''[Source 1: team.txt]'' @ lit ''\<newline>'' @ lit ''Ramesh Iyer is the CTO.''"
  by code_simp

theorem summary_budget_witness:
  "determine_query_type no_tables (lit ''Give me a summary of the project'') = lit ''summary'' \<and>
   (0::nat) < length (build_context_parts (\<lambda>x. lit ''0.00'')
      [\<lparr>content = document cto_chunk, metadata = chunk_metadata cto_chunk, score = 1\<rparr>]
      (determine_query_type no_tables (lit ''Give me a summary of the project''))) \<and>
   build_context (\<lambda>x. lit ''0.00'')
      [\<lparr>content = document cto_chunk, metadata = chunk_metadata cto_chunk, score = 1\<rparr>]
      (determine_query_type no_tables (lit ''Give me a summary of the project'')) =
     lit ''[Source 1: team.txt]'' @ lit ''\<newline>'' @ lit ''Ramesh Iyer is the CTO.''"
proof -
  let ?docs = "[\<lparr>content = document cto_chunk, metadata = chunk_metadata cto_chunk,
                 score = 1\<rparr>]"
  have l: "length (build_context_parts (\<lambda>x. lit ''0.00'') ?docs
      (determine_query_type no_tables (lit ''Give me a summary of the project''))) = 1"
    by (simp add: summary_query summary_parts_length)
  from summary_budget [OF summary_query, of "\<lambda>x. lit ''0.00''" ?docs]
  have n: "build_context_parts (\<lambda>x. lit ''0.00'') ?docs
             (determine_query_type no_tables (lit ''Give me a summary of the project'')) ! 0 =
           lit ''[Source 1: team.txt]'' @ lit ''\<newline>'' @ lit ''Ramesh Iyer is the CTO.''"
    and b: "build_context (\<lambda>x. lit ''0.00'') ?docs
             (determine_query_type no_tables (lit ''Give me a summary of the project'')) =
           join (lit ''\<newline>\<newline>'') (build_context_parts (\<lambda>x. lit ''0.00'') ?docs
             (determine_query_type no_tables (lit ''Give me a summary of the project'')))"
    using l cto_summary_part by simp_all
  from l n have "build_context_parts (\<lambda>x. lit ''0.00'') ?docs
             (determine_query_type no_tables (lit ''Give me a summary of the project'')) =
           [lit ''[Source 1: team.txt]'' @ lit ''\<newline>'' @ lit ''Ramesh Iyer is the CTO.'']"
    by (cases "build_context_parts (\<lambda>x. lit ''0.00'') ?docs
             (determine_query_type no_tables (lit ''Give me a summary of the project''))") auto
  with b l summary_query show ?thesis by simp
qed

end
